theory Spec2Isabelle
  imports Complex_Main "HOL-Library.Product_Lexorder"
begin

section \<open>Python values: exceptions, arrays, the array store\<close>

text \<open>
  The model is a shallow embedding of \<^verbatim>\<open>simphox/grid.py\<close>, \<^verbatim>\<open>simphox/fdfd.py\<close>,
  \<^verbatim>\<open>simphox/utils.py\<close> and \<^verbatim>\<open>simphox/device.py\<close>.  Python floats are modelled by
  \<^typ>\<open>real\<close>, complex floats by \<^typ>\<open>complex\<close>, Python and NumPy integers by \<^typ>\<open>int\<close>,
  array extents by \<^typ>\<open>nat\<close>.  The arithmetic of the array entries (sums, products,
  quotients, square roots) is exact; the library functions \<open>np.angle\<close> and \<open>np.exp\<close>
  round their results to double precision (section \<open>Double precision\<close> below).

  An exception is a value: \<open>Raise c msg\<close> is an exception of class \<open>c\<close> raised by the
  modelled code itself (the message is the constant part of the source's message), and
  \<open>External msg\<close> is an exception that escaped from a collaborator that is passed in as a
  function (a sparse solver, an eigensolver).
\<close>

datatype pyexc = AttributeError | ValueError | TypeError | IndexError | AxisError

datatype error = Raise pyexc string | External string

text \<open>
  A NumPy array is its shape and its elements in C order.  The invariant
  \<open>length (dat a) = prod_list (shp a)\<close> holds for every array NumPy can build.
\<close>

record 'a ndarray =
  shp :: "nat list"
  dat :: "'a list"

text \<open>
  Arrays that the program shares and mutates (the permittivity \<open>eps\<close>) live in a store
  and are referred to by address.  Objects whose identity matters carry an object id:
  \<open>functools.lru_cache\<close> keys its entries on the identity of \<open>self\<close>.
  \<open>eps_t_cache\<close> is the cache of the property \<open>SimGrid.eps_t\<close>, most recently used entry
  first.
\<close>

record pystate =
  heap :: "nat \<Rightarrow> real ndarray"
  next_addr :: nat
  next_oid :: nat
  eps_t_cache :: "(nat \<times> real ndarray) list"

definition alloc :: "pystate \<Rightarrow> real ndarray \<Rightarrow> nat \<times> pystate" where
  "alloc st a =
     (next_addr st, st\<lparr>heap := (heap st)(next_addr st := a), next_addr := Suc (next_addr st)\<rparr>)"

definition new_oid :: "pystate \<Rightarrow> nat \<times> pystate" where
  "new_oid st = (next_oid st, st\<lparr>next_oid := Suc (next_oid st)\<rparr>)"

definition init_state :: pystate where
  "init_state = \<lparr>heap = (\<lambda>_. \<lparr>shp = [0], dat = []\<rparr>), next_addr = 0, next_oid = 0,
                 eps_t_cache = []\<rparr>"

text \<open>Sequencing of a list of results: the first exception wins.\<close>

fun sequence :: "(error + 'a) list \<Rightarrow> error + 'a list" where
  "sequence [] = Inr []"
| "sequence (Inl e # _) = Inl e"
| "sequence (Inr x # rs) = (case sequence rs of Inl e \<Rightarrow> Inl e | Inr xs \<Rightarrow> Inr (x # xs))"

subsection \<open>The NumPy functions used by \<open>Grid.reshape\<close>\<close>

text \<open>
  \<open>np.split(v, 3)\<close> on a one-dimensional array: three equal consecutive parts, or
  \<open>ValueError\<close> when the length is not a multiple of three.
\<close>

definition np_split3 :: "'a ndarray \<Rightarrow> error + 'a ndarray list" where
  "np_split3 v =
     (let l = length (dat v) in
      if l mod 3 \<noteq> 0
      then Inl (Raise ValueError ''array split does not result in an equal division'')
      else Inr (map (\<lambda>k. \<lparr>shp = [l div 3], dat = take (l div 3) (drop (k * (l div 3)) (dat v))\<rparr>)
                  [0, 1, 2]))"

definition np_reshape :: "'a ndarray \<Rightarrow> nat list \<Rightarrow> error + 'a ndarray" where
  "np_reshape a s =
     (if length (dat a) = prod_list s then Inr \<lparr>shp = s, dat = dat a\<rparr>
      else Inl (Raise ValueError ''cannot reshape array''))"

definition np_stack :: "'a ndarray list \<Rightarrow> error + 'a ndarray" where
  "np_stack as =
     (case as of
        [] \<Rightarrow> Inl (Raise ValueError ''need at least one array to stack'')
      | a # _ \<Rightarrow>
          if list_all (\<lambda>b. shp b = shp a) as
          then Inr \<lparr>shp = length as # shp a, dat = concat (map dat as)\<rparr>
          else Inl (Raise ValueError ''all input arrays must have the same shape''))"

definition np_flatten :: "'a ndarray \<Rightarrow> 'a ndarray" where
  "np_flatten a = \<lparr>shp = [length (dat a)], dat = dat a\<rparr>"

section \<open>\<open>Grid\<close>\<close>

text \<open>
  The attributes of a \<open>Grid\<close> object.  \<open>grid_n\<close> is the attribute \<open>n\<close> and \<open>grid_size\<close> the
  attribute \<open>size\<close> (renamed: \<open>n\<close> and \<open>size\<close> are taken in HOL); \<open>eps\<close> is the address of
  the permittivity array; \<open>oid\<close> is the identity of the object.  The attribute \<open>mesh_pos\<close>
  (coordinates for plotting) is not kept, only the exceptions its construction raises.
\<close>

record Grid =
  oid :: nat
  shape :: "nat list"
  spacing :: "real list"
  ndim :: nat
  shape3 :: "nat list"
  grid_n :: nat
  eps :: nat
  grid_size :: "real list"
  cell_sizes :: "real list list"
  pos :: "real list option list"

datatype spacing_arg = SpacingFloat real | SpacingSeq "real list"

datatype eps_arg = EpsFloat real | EpsArray nat

text \<open>\<open>np.hstack((0, np.cumsum(dx)))\<close>.\<close>

fun cumsum_from :: "real \<Rightarrow> real list \<Rightarrow> real list" where
  "cumsum_from acc [] = []"
| "cumsum_from acc (x # xs) = (acc + x) # cumsum_from (acc + x) xs"

text \<open>
  \<open>Grid.__init__\<close>.  A shape of more than three axes fails in
  \<open>np.ones((3 - self.ndim,))\<close>; an empty shape fails with \<open>IndexError\<close> at
  \<open>self.size[0]\<close> in the last branch of the \<open>mesh_pos\<close> construction; a zero spacing makes
  \<open>np.mgrid\<close> fail on a zero step (with an exception of NumPy's choosing, hence
  \<open>External\<close>).  A scalar \<open>eps\<close> allocates a new array, an array
  \<open>eps\<close> is stored as it is (the grid then shares it with the caller).
\<close>

definition Grid_init ::
  "pystate \<Rightarrow> nat list \<Rightarrow> spacing_arg \<Rightarrow> eps_arg \<Rightarrow> (error + Grid) \<times> pystate" where
  "Grid_init st shape0 spacing0 eps0 =
     (let spacing1 = (case spacing0 of
                        SpacingFloat x \<Rightarrow> map (\<lambda>one. x * one) (replicate (length shape0) 1)
                      | SpacingSeq xs \<Rightarrow> xs);
          ndim1 = length shape0
      in if 3 < ndim1 then (Inl (Raise ValueError ''negative dimensions are not allowed''), st)
      else if ndim1 \<noteq> length spacing1
      then (Inl (Raise AttributeError ''Require len(grid_shape) == len(grid_spacing)''), st)
      else
        let n1 = prod_list shape0;
            (eps1, st1) = (case eps0 of
                             EpsFloat x \<Rightarrow>
                               alloc st \<lparr>shp = shape0, dat = map (\<lambda>one. one * x) (replicate n1 1)\<rparr>
                           | EpsArray a \<Rightarrow> (a, st))
        in if shape0 \<noteq> shp (heap st1 eps1)
        then (Inl (Raise AttributeError ''Require grid_shape == eps.shape''), st1)
        else if ndim1 = 0 then (Inl (Raise IndexError ''index 0 is out of bounds''), st1)
        else if list_ex (\<lambda>x. x = 0) spacing1
        then (Inl (External ''np.mgrid: zero step''), st1)
        else
          let cells = map (\<lambda>i. if i < ndim1 then map (\<lambda>one. spacing1 ! i * one)
                                                    (replicate (shape0 ! i) 1)
                                else [1]) [0, 1, 2];
              (i, st2) = new_oid st1
          in (Inr \<lparr>oid = i, shape = shape0, spacing = spacing1, ndim = ndim1,
                    shape3 = shape0 @ replicate (3 - ndim1) 1, grid_n = n1, eps = eps1,
                    grid_size = map (\<lambda>(a, b). a * real b) (zip spacing1 shape0),
                    cell_sizes = cells,
                    pos = map (\<lambda>dx. if 1 < length dx then Some (0 # cumsum_from 0 dx) else None)
                            cells\<rparr>, st2))"

text \<open>
  \<open>Grid.reshape\<close>: a one-dimensional array is split into three parts, each reshaped to
  \<open>shape3\<close>, and the parts are stacked; any other array is flattened.
\<close>

definition reshape :: "'z Grid_scheme \<Rightarrow> 'a ndarray \<Rightarrow> error + 'a ndarray" where
  "reshape g v =
     (if length (shp v) = 1
      then (case np_split3 v of
              Inl e \<Rightarrow> Inl e
            | Inr parts \<Rightarrow>
                (case sequence (map (\<lambda>split_v. np_reshape split_v (shape3 g)) parts) of
                   Inl e \<Rightarrow> Inl e
                 | Inr rs \<Rightarrow> np_stack rs))
      else Inr (np_flatten v))"

section \<open>Matrices\<close>

text \<open>
  A SciPy sparse matrix or a two-dimensional NumPy array: its extents and its entries,
  zero outside the extents.  \<open>sp_diags\<close> is \<open>sp.diags(values, offsets, shape=(n, n))\<close>
  with scalar values (entry \<open>(i, j)\<close> lies on the diagonal of offset \<open>j - i\<close>),
  \<open>sp_diags1\<close> is \<open>sp.diags(v)\<close> for a one-dimensional array \<open>v\<close> (the main diagonal),
  \<open>scalar0\<close> is the matrix that \<open>sp.kron\<close> makes of the scalar \<open>0\<close>.  The product and
  the sum are the mathematical ones; SciPy raises when the extents do not fit, which does
  not happen between the operands below as long as every axis has at least one cell.
\<close>

record cmat =
  nrows :: nat
  ncols :: nat
  ent :: "nat \<Rightarrow> nat \<Rightarrow> complex"

definition sp_diags :: "complex list \<Rightarrow> int list \<Rightarrow> nat \<Rightarrow> cmat" where
  "sp_diags vals offsets m =
     \<lparr>nrows = m, ncols = m,
      ent = (\<lambda>i j. if i < m \<and> j < m
                   then sum_list (map (\<lambda>(v, k). if int j - int i = k then v else 0)
                                   (zip vals offsets))
                   else 0)\<rparr>"

definition sp_diags1 :: "complex list \<Rightarrow> cmat" where
  "sp_diags1 v =
     \<lparr>nrows = length v, ncols = length v,
      ent = (\<lambda>i j. if i < length v \<and> j = i then v ! i else 0)\<rparr>"

definition sp_eye :: "nat \<Rightarrow> cmat" where
  "sp_eye m = \<lparr>nrows = m, ncols = m, ent = (\<lambda>i j. if i < m \<and> j = i then 1 else 0)\<rparr>"

definition scalar0 :: cmat where
  "scalar0 = \<lparr>nrows = 1, ncols = 1, ent = (\<lambda>i j. 0)\<rparr>"

definition sp_kron :: "cmat \<Rightarrow> cmat \<Rightarrow> cmat" where
  "sp_kron A B =
     \<lparr>nrows = nrows A * nrows B, ncols = ncols A * ncols B,
      ent = (\<lambda>i j. if i < nrows A * nrows B \<and> j < ncols A * ncols B
                   then ent A (i div nrows B) (j div ncols B) * ent B (i mod nrows B) (j mod ncols B)
                   else 0)\<rparr>"

definition matmul :: "cmat \<Rightarrow> cmat \<Rightarrow> cmat" where
  "matmul A B =
     \<lparr>nrows = nrows A, ncols = ncols B,
      ent = (\<lambda>i j. if i < nrows A \<and> j < ncols B
                   then (\<Sum>k<ncols A. ent A i k * ent B k j) else 0)\<rparr>"

definition mat_neg :: "cmat \<Rightarrow> cmat" where
  "mat_neg A = \<lparr>nrows = nrows A, ncols = ncols A, ent = (\<lambda>i j. - ent A i j)\<rparr>"

text \<open>The conjugate transpose.\<close>

definition mat_H :: "cmat \<Rightarrow> cmat" where
  "mat_H A = \<lparr>nrows = ncols A, ncols = nrows A, ent = (\<lambda>i j. cnj (ent A j i))\<rparr>"

section \<open>Double precision: \<open>np.angle\<close> and \<open>np.exp\<close>\<close>

text \<open>
  \<open>rne\<close> rounds a real number to the nearest integer, a tie to the even one.
  \<open>float64 x\<close> is the double-precision number nearest to \<open>x\<close>: \<open>x\<close> is scaled by the
  power of two that brings it into \<open>[2^52, 2^53)\<close>, rounded to an integer, and scaled
  back, which keeps 53 significant bits.  The exponent range is not bounded (no overflow to
  infinity, no gradual underflow).
\<close>

definition rne :: "real \<Rightarrow> int" where
  "rne x =
     (let f = \<lfloor>x\<rfloor>; r = x - of_int f
      in if r < 1 / 2 then f else if 1 / 2 < r then f + 1 else if even f then f else f + 1)"

definition float64 :: "real \<Rightarrow> real" where
  "float64 x =
     (if x = 0 then 0
      else let e = \<lfloor>log 2 \<bar>x\<bar>\<rfloor>
           in of_int (rne (x * 2 powr of_int (52 - e))) * 2 powr of_int (e - 52))"

text \<open>
  \<open>np.angle(z)\<close> is \<open>arctan2(z.imag, z.real)\<close>: the double nearest to the argument of
  \<open>z\<close> in \<open>(-\<pi>, \<pi>]\<close> (\<^const>\<open>Arg\<close>, zero at zero).  \<open>np.exp\<close> of a complex number has
  the components \<open>exp(x) cos(y)\<close> and \<open>exp(x) sin(y)\<close>, each the nearest double.
\<close>

definition np_angle :: "complex \<Rightarrow> real" where
  "np_angle z = float64 (Arg z)"

definition np_exp :: "complex \<Rightarrow> complex" where
  "np_exp z = Complex (float64 (exp (Re z) * cos (Im z))) (float64 (exp (Re z) * sin (Im z)))"

section \<open>\<open>SimGrid\<close>\<close>

datatype np_dtype = Float64 | Complex128

text \<open>
  The argument \<open>pml\<close> is \<open>None\<close>, an \<open>int\<close>, a tuple, or (as \<open>FDFD.to_2d\<close> passes it) an
  integer array; the attribute \<open>pml_shape\<close> holds such a value too.
\<close>

datatype pml_val = PInt int | PTuple "int list" | PArray "int list"

datatype bloch_arg = BlochFloat real | BlochSeq "real list"

text \<open>
  \<open>yee_avg_n\<close> is the attribute \<open>yee_avg\<close> (the function of that name is below) and
  \<open>dxes\<close> the attribute \<open>_dxes\<close>.  The attribute \<open>xp\<close> holds the array module itself,
  \<open>numpy\<close> or \<open>cupy\<close>.  The argument \<open>gpu\<close> keeps its default \<open>False\<close>: the GPU
  arrays are not modelled.
\<close>

datatype pymodule = Numpy | Cupy

record SimGrid = Grid +
  pml_shape :: "pml_val option"
  pml_eps :: real
  yee_avg_n :: int
  field_shape :: "nat list"
  bloch :: "complex list"
  dtype :: np_dtype
  dxes :: "complex ndarray list \<times> complex ndarray list"
  xp :: pymodule
  gpu :: bool

text \<open>
  The coordinate along axis \<open>ax\<close> of the element at flat position \<open>k\<close> of a C-ordered
  array of shape \<open>sh\<close>, and \<open>np.meshgrid(*xs, indexing='ij')\<close>.
\<close>

definition coord :: "nat list \<Rightarrow> nat \<Rightarrow> nat \<Rightarrow> nat" where
  "coord sh ax k = (k div prod_list (drop (Suc ax) sh)) mod (sh ! ax)"

definition meshgrid_ij :: "'a list list \<Rightarrow> 'a ndarray list" where
  "meshgrid_ij xs =
     (let sh = map length xs
      in map (\<lambda>ax. \<lparr>shp = sh, dat = map (\<lambda>k. xs ! ax ! coord sh ax k) [0..<prod_list sh]\<rparr>)
           [0..<length xs])"

text \<open>
  The comparison \<open>self.pml_shape <= 3\<close> and the comparison
  \<open>self.pml_shape >= self.shape // 2\<close>, each under \<open>np.any\<close>.  A tuple cannot be compared
  with an \<open>int\<close> (\<open>TypeError\<close>); two arrays of different lengths are compared only when
  one of them has length one (broadcasting), and raise \<open>ValueError\<close> otherwise.
\<close>

definition any_le3 :: "pml_val \<Rightarrow> error + bool" where
  "any_le3 p =
     (case p of
        PInt t \<Rightarrow> Inr (t \<le> 3)
      | PTuple ts \<Rightarrow> Inl (Raise TypeError ''<= not supported between instances of tuple and int'')
      | PArray ts \<Rightarrow> Inr (list_ex (\<lambda>t. t \<le> 3) ts))"

definition any_ge_half :: "pml_val \<Rightarrow> nat list \<Rightarrow> error + bool" where
  "any_ge_half p sh =
     (let half = map (\<lambda>s. int s div 2) sh
      in case p of
           PInt t \<Rightarrow> Inr (list_ex (\<lambda>h. t \<ge> h) half)
         | PTuple ts \<Rightarrow> Inr (list_ex (\<lambda>(t, h). t \<ge> h) (zip ts half))
         | PArray ts \<Rightarrow>
             if length ts = length half then Inr (list_ex (\<lambda>(t, h). t \<ge> h) (zip ts half))
             else if length ts = 1 then Inr (list_ex (\<lambda>h. ts ! 0 \<ge> h) half)
             else if length half = 1 then Inr (list_ex (\<lambda>t. t \<ge> half ! 0) ts)
             else Inl (Raise ValueError ''operands could not be broadcast together''))"

definition pml_len :: "pml_val \<Rightarrow> error + nat" where
  "pml_len p =
     (case p of
        PInt t \<Rightarrow> Inl (Raise TypeError ''object of type int has no len()'')
      | PTuple ts \<Rightarrow> Inr (length ts)
      | PArray ts \<Rightarrow> Inr (length ts))"

definition pml_msg :: string where
  "pml_msg = ''PML shape must be more than 3 and less than half the shape on each axis.''"

text \<open>
  \<open>SimGrid.__init__\<close>.  The first assignment to \<open>pml_shape\<close> (the conversion of a tuple
  to an array) is overwritten by the second one, which keeps a tuple as it is.
\<close>

definition SimGrid_init ::
  "pystate \<Rightarrow> nat list \<Rightarrow> spacing_arg \<Rightarrow> eps_arg \<Rightarrow> bloch_arg \<Rightarrow> pml_val option \<Rightarrow> real \<Rightarrow> int
     \<Rightarrow> (error + SimGrid) \<times> pystate" where
  "SimGrid_init st shape0 spacing0 eps0 bloch_phase pml pml_eps0 yee_avg0 =
     (case Grid_init st shape0 spacing0 eps0 of
        (Inl e, st1) \<Rightarrow> (Inl e, st1)
      | (Inr g, st1) \<Rightarrow>
          let pml_shape0 = (case pml of Some (PTuple ts) \<Rightarrow> Some (PArray ts) | other \<Rightarrow> other);
              pml_shape1 = (case pml of
                              Some (PInt t) \<Rightarrow> Some (PArray (map (\<lambda>one. one * t)
                                                              (replicate (ndim g) 1)))
                            | other \<Rightarrow> other);
              pml_check = (case pml_shape1 of
                             None \<Rightarrow> Inr False
                           | Some p \<Rightarrow>
                               (case any_le3 p of
                                  Inl e \<Rightarrow> Inl e
                                | Inr True \<Rightarrow> Inr True
                                | Inr False \<Rightarrow> any_ge_half p (shape g)));
              len_check = (case pml of
                             None \<Rightarrow> Inr False
                           | Some _ \<Rightarrow>
                               (case pml_len (the pml_shape1) of
                                  Inl e \<Rightarrow> Inl e
                                | Inr l \<Rightarrow> Inr (l \<noteq> length (shape g))));
              bloch1 = (case bloch_phase of
                          BlochFloat x \<Rightarrow> map (\<lambda>one. one * np_exp (\<i> * complex_of_real x))
                                            (replicate (length (shape g)) 1)
                        | BlochSeq xs \<Rightarrow> map (\<lambda>x. np_exp (\<i> * complex_of_real x)) xs);
              cells = map (map complex_of_real) (cell_sizes g)
          in case pml_check of
               Inl e \<Rightarrow> (Inl e, st1)
             | Inr True \<Rightarrow> (Inl (Raise AttributeError pml_msg), st1)
             | Inr False \<Rightarrow>
                 (case len_check of
                    Inl e \<Rightarrow> (Inl e, st1)
                  | Inr True \<Rightarrow>
                      (Inl (Raise AttributeError ''Need len(pml_shape) == len(grid_shape)''), st1)
                  | Inr False \<Rightarrow>
                      if length bloch1 \<noteq> length (shape g)
                      then (Inl (Raise AttributeError ''Need len(bloch_phase) == len(grid_shape)''),
                            st1)
                      else (Inr (Grid.extend g
                                   \<lparr>pml_shape = pml_shape1, pml_eps = pml_eps0,
                                    yee_avg_n = yee_avg0, field_shape = 3 # shape g,
                                    bloch = bloch1,
                                    dtype = (if pml = None \<and> bloch_phase = BlochFloat 0
                                             then Float64 else Complex128),
                                    dxes = (meshgrid_ij cells, meshgrid_ij cells),
                                    xp = Numpy, gpu = False\<rparr>), st1)))"

text \<open>
  \<open>SimGrid.deriv\<close>: the single-axis difference matrices (the scalar \<open>0\<close> on an axis of one
  cell), tiled over the other axes by Kronecker products, then scaled by the cell sizes.
  The operators are those of a grid with at least one cell on every axis; on a grid with an
  empty axis the extents of the last product do not match and the source raises
  \<open>ValueError\<close>, which \<open>deriv\<close> does not model.
\<close>

definition deriv :: "'z SimGrid_scheme \<Rightarrow> bool \<Rightarrow> cmat list" where
  "deriv g back =
     (let b = bloch g @ replicate (3 - ndim g) 1;
          s = shape g @ replicate (3 - ndim g) 1;
          dx = (if back then snd (dxes g) else fst (dxes g));
          d = (if back
               then map (\<lambda>(ax, m). if 1 < m
                                    then sp_diags [1, - 1, - cnj (b ! ax)] [0, - 1, int m - 1] m
                                    else scalar0) (enumerate 0 s)
               else map (\<lambda>(ax, m). if 1 < m
                                    then sp_diags [- 1, 1, b ! ax] [0, 1, - int m + 1] m
                                    else scalar0) (enumerate 0 s));
          d = [sp_kron (d ! 0) (sp_eye (s ! 1 * s ! 2)),
               sp_kron (sp_kron (sp_eye (s ! 0)) (d ! 1)) (sp_eye (s ! 2)),
               sp_kron (sp_eye (s ! 0 * s ! 1)) (d ! 2)]
      in map (\<lambda>ax. matmul (sp_diags1 (map (\<lambda>x. 1 / x) (dat (dx ! ax)))) (d ! ax))
           [0..<length s])"

definition df :: "'z SimGrid_scheme \<Rightarrow> cmat list" where
  "df g = deriv g False"

definition db :: "'z SimGrid_scheme \<Rightarrow> cmat list" where
  "db g = deriv g True"

section \<open>Yee averaging and the cached property \<open>eps_t\<close>\<close>

text \<open>
  \<open>np.roll(a, shift, axis)\<close>: the element at coordinate \<open>c\<close> along the axis comes from
  coordinate \<open>(c - shift) mod n\<close>.  An axis the array does not have raises \<open>AxisError\<close>.
\<close>

definition np_roll :: "'a ndarray \<Rightarrow> int \<Rightarrow> nat \<Rightarrow> error + 'a ndarray" where
  "np_roll a shift ax =
     (if length (shp a) \<le> ax then Inl (Raise AxisError ''axis is out of bounds for array'')
      else
        let stride = prod_list (drop (Suc ax) (shp a));
            m = shp a ! ax
        in Inr \<lparr>shp = shp a,
                dat = map (\<lambda>k. let c = coord (shp a) ax k;
                                   c' = nat ((int c - shift) mod int m)
                               in dat a ! (k - c * stride + c' * stride))
                        [0..<length (dat a)]\<rparr>)"

definition nd_add :: "real ndarray \<Rightarrow> real ndarray \<Rightarrow> real ndarray" where
  "nd_add a b = \<lparr>shp = shp a, dat = map (\<lambda>(x, y). x + y) (zip (dat a) (dat b))\<rparr>"

definition nd_div :: "real ndarray \<Rightarrow> real \<Rightarrow> real ndarray" where
  "nd_div a c = \<lparr>shp = shp a, dat = map (\<lambda>x. x / c) (dat a)\<rparr>"

text \<open>\<open>utils.yee_avg\<close>.  The sums are between arrays of one shape.\<close>

definition yee_avg :: "real ndarray \<Rightarrow> int \<Rightarrow> error + real ndarray" where
  "yee_avg params shift =
     (if length (shp params) = 1
      then (case np_roll params shift 0 of
              Inl e \<Rightarrow> Inl e
            | Inr r1 \<Rightarrow>
                (case np_roll params (- shift) 0 of
                   Inl e \<Rightarrow> Inl e
                 | Inr r2 \<Rightarrow>
                     let p = nd_div (nd_add (nd_add params r1) r2) 3
                     in np_stack [p, p, p]))
      else
        let p = (if length (shp params) = 2 then params\<lparr>shp := shp params @ [1]\<rparr> else params)
        in case np_roll p shift 1 of
             Inl e \<Rightarrow> Inl e
           | Inr rx \<Rightarrow>
               let p_x = nd_div (nd_add p rx) 2
               in case np_roll p shift 0 of
                    Inl e \<Rightarrow> Inl e
                  | Inr ry \<Rightarrow>
                      let p_y = nd_div (nd_add p ry) 2
                      in case np_roll p_y shift 1 of
                           Inl e \<Rightarrow> Inl e
                         | Inr rz \<Rightarrow>
                             let p_z = nd_div (nd_add p_y rz) 2
                             in np_stack [p_x, p_y, p_z])"

text \<open>
  The body of the property \<open>SimGrid.eps_t\<close>, computed from the array that \<open>self.eps\<close>
  refers to at the time of the call.
\<close>

definition eps_t_compute :: "pystate \<Rightarrow> 'z SimGrid_scheme \<Rightarrow> error + real ndarray" where
  "eps_t_compute st g =
     (let e = heap st (eps g)
      in if 0 < yee_avg_n g then yee_avg e (yee_avg_n g) else np_stack [e, e, e])"

text \<open>
  The property \<open>eps_t\<close> as it is declared, \<open>@property\<close> over \<open>@lru_cache()\<close>: the cache
  (at most 128 entries, least recently used evicted first) is keyed on the identity of
  \<open>self\<close> alone.  A hit returns the stored value and makes the entry the most recent one; a
  miss runs the body and stores its result; an exception is not stored.
\<close>

definition eps_t :: "pystate \<Rightarrow> 'z SimGrid_scheme \<Rightarrow> (error + real ndarray) \<times> pystate" where
  "eps_t st g =
     (case map_of (eps_t_cache st) (oid g) of
        Some v \<Rightarrow>
          (Inr v, st\<lparr>eps_t_cache := (oid g, v) # filter (\<lambda>kv. fst kv \<noteq> oid g) (eps_t_cache st)\<rparr>)
      | None \<Rightarrow>
          (case eps_t_compute st g of
             Inl e \<Rightarrow> (Inl e, st)
           | Inr v \<Rightarrow> (Inr v, st\<lparr>eps_t_cache := take 128 ((oid g, v) # eps_t_cache st)\<rparr>)))"

section \<open>\<open>FDFD\<close>: the operators\<close>

text \<open>
  The attributes of an \<open>FDFD\<close> object.  \<open>FDFD.__init__\<close> is not modelled (as written it
  forwards a keyword \<open>name\<close> that \<open>SimGrid.__init__\<close> does not take); the functions below
  take the attribute values of the object they are called on.
\<close>

record FDFD = SimGrid +
  wavelength :: real

text \<open>
  An \<open>FDFD\<close> object without PML: the attributes that \<open>SimGrid.__init__\<close> sets, and the
  wavelength.
\<close>

definition FDFD_of :: "SimGrid \<Rightarrow> real \<Rightarrow> FDFD" where
  "FDFD_of sg wl = SimGrid.extend sg \<lparr>wavelength = wl\<rparr>"

definition k0 :: "'z FDFD_scheme \<Rightarrow> real" where
  "k0 g = 2 * pi / wavelength g"

text \<open>
  Sums, scalar multiples and block matrices.  \<open>sp_vstack2\<close> puts \<open>B\<close> below \<open>A\<close>,
  \<open>sp_hstack2\<close> puts \<open>B\<close> to the right of \<open>A\<close>, \<open>sp_bmat3\<close> is \<open>sp.bmat\<close> of three
  rows of three square blocks of extent \<open>m\<close>.
\<close>

definition mat_add :: "cmat \<Rightarrow> cmat \<Rightarrow> cmat" where
  "mat_add A B = \<lparr>nrows = nrows A, ncols = ncols A, ent = (\<lambda>i j. ent A i j + ent B i j)\<rparr>"

definition mat_sub :: "cmat \<Rightarrow> cmat \<Rightarrow> cmat" where
  "mat_sub A B = \<lparr>nrows = nrows A, ncols = ncols A, ent = (\<lambda>i j. ent A i j - ent B i j)\<rparr>"

definition mat_scale :: "complex \<Rightarrow> cmat \<Rightarrow> cmat" where
  "mat_scale c A = \<lparr>nrows = nrows A, ncols = ncols A, ent = (\<lambda>i j. c * ent A i j)\<rparr>"

definition sp_vstack2 :: "cmat \<Rightarrow> cmat \<Rightarrow> cmat" where
  "sp_vstack2 A B =
     \<lparr>nrows = nrows A + nrows B, ncols = ncols A,
      ent = (\<lambda>i j. if i < nrows A then ent A i j else ent B (i - nrows A) j)\<rparr>"

definition sp_hstack2 :: "cmat \<Rightarrow> cmat \<Rightarrow> cmat" where
  "sp_hstack2 A B =
     \<lparr>nrows = nrows A, ncols = ncols A + ncols B,
      ent = (\<lambda>i j. if j < ncols A then ent A i j else ent B i (j - ncols A))\<rparr>"

definition sp_bmat3 :: "nat \<Rightarrow> cmat list list \<Rightarrow> cmat" where
  "sp_bmat3 m blocks =
     \<lparr>nrows = 3 * m, ncols = 3 * m,
      ent = (\<lambda>i j. if i < 3 * m \<and> j < 3 * m
                   then ent (blocks ! (i div m) ! (j div m)) (i mod m) (j mod m) else 0)\<rparr>"

definition sp_zeros :: "nat \<Rightarrow> cmat" where
  "sp_zeros m = \<lparr>nrows = m, ncols = m, ent = (\<lambda>i j. 0)\<rparr>"

text \<open>\<open>utils.d2curl_op\<close>; \<open>oo\<close> is the zero block \<open>o\<close> of the source.\<close>

definition d2curl_op :: "cmat list \<Rightarrow> cmat" where
  "d2curl_op d =
     (let oo = sp_zeros (nrows (d ! 0))
      in sp_bmat3 (nrows (d ! 0))
           [[oo, mat_neg (d ! 2), d ! 1],
            [d ! 2, oo, mat_neg (d ! 0)],
            [mat_neg (d ! 1), d ! 0, oo]])"

text \<open>
  The properties \<open>curl_curl\<close> and \<open>ddz\<close>.  \<open>curl_curl\<close> is cached too, but it depends
  on nothing that changes after construction, so it is modelled by its body.
\<close>

definition curl_curl :: "'z FDFD_scheme \<Rightarrow> cmat" where
  "curl_curl g = matmul (d2curl_op (db g)) (d2curl_op (df g))"

definition ddz :: "'z FDFD_scheme \<Rightarrow> cmat" where
  "ddz g = mat_sub (matmul (mat_neg (db g ! 0)) (df g ! 0)) (matmul (db g ! 1) (df g ! 1))"

text \<open>
  The sub-arrays along the first axis (iterating over an array, or indexing it with one
  integer) and the diagonal matrix of a real array.
\<close>

definition subarrays :: "'a ndarray \<Rightarrow> 'a ndarray list" where
  "subarrays a =
     (let k = hd (shp a); l = length (dat a) div k
      in map (\<lambda>i. \<lparr>shp = tl (shp a), dat = take l (drop (i * l) (dat a))\<rparr>) [0..<k])"

definition diag_of :: "real list \<Rightarrow> cmat" where
  "diag_of v = sp_diags1 (map complex_of_real v)"

text \<open>The properties \<open>mat\<close> and \<open>matz\<close>; each reads \<open>eps_t\<close> once.\<close>

definition mat :: "pystate \<Rightarrow> 'z FDFD_scheme \<Rightarrow> (error + cmat) \<times> pystate" where
  "mat st g =
     (case eps_t st g of
        (Inl e, st1) \<Rightarrow> (Inl e, st1)
      | (Inr et, st1) \<Rightarrow>
          (Inr (mat_sub (curl_curl g)
                  (mat_scale (complex_of_real ((k0 g)\<^sup>2)) (diag_of (dat (np_flatten et))))), st1))"

definition matz :: "pystate \<Rightarrow> 'z FDFD_scheme \<Rightarrow> (error + cmat) \<times> pystate" where
  "matz st g =
     (case eps_t st g of
        (Inl e, st1) \<Rightarrow> (Inl e, st1)
      | (Inr et, st1) \<Rightarrow>
          (Inr (mat_sub (ddz g)
                  (mat_scale (complex_of_real ((k0 g)\<^sup>2))
                     (diag_of (dat (np_flatten (subarrays et ! 2)))))), st1))"

definition wgm_msg :: string where
  "wgm_msg = ''Grid dimension must be 1 or 2''"

text \<open>
  The property \<open>wgm\<close>.  The dimension is checked before anything else is read.  The
  one-dimensional branch reads \<open>eps_t\<close> a second time.
\<close>

definition wgm :: "pystate \<Rightarrow> 'z FDFD_scheme \<Rightarrow> (error + cmat) \<times> pystate" where
  "wgm st g =
     (if \<not> ndim g \<le> 2 then (Inl (Raise AttributeError wgm_msg), st)
      else
        let df1 = df g; db1 = db g
        in case eps_t st g of
             (Inl e, st1) \<Rightarrow> (Inl e, st1)
           | (Inr et, st1) \<Rightarrow>
               let eps1 = map (\<lambda>e. dat (np_flatten e)) (subarrays et);
                   k2 = complex_of_real ((k0 g)\<^sup>2)
               in if ndim g = 2
                  then
                    let eps_10 = diag_of (eps1 ! 1 @ eps1 ! 0);
                        m1 = mat_scale k2 eps_10;
                        m2 = matmul (matmul (matmul eps_10
                                               (sp_vstack2 (mat_neg (df1 ! 1)) (df1 ! 0)))
                                       (diag_of (map (\<lambda>x. 1 / x) (eps1 ! 2))))
                               (sp_hstack2 (mat_neg (db1 ! 1)) (db1 ! 0));
                        m3 = matmul (sp_vstack2 (db1 ! 0) (db1 ! 1)) (sp_hstack2 (df1 ! 0) (df1 ! 1))
                    in (Inr (mat_add (mat_add m1 m2) m3), st1)
                  else
                    (case eps_t st1 g of
                       (Inl e, st2) \<Rightarrow> (Inl e, st2)
                     | (Inr et2, st2) \<Rightarrow>
                         (Inr (mat_add (mat_scale k2 (diag_of (dat (np_flatten (subarrays et2 ! 0)))))
                                 (matmul (df1 ! 0) (db1 ! 0))), st2)))"

section \<open>\<open>FDFD\<close>: the solvers\<close>

text \<open>
  The collaborators: the direct sparse solver, the incomplete LU factorisation and the two
  iterative solvers of SciPy (each returns the solution and a status code), and the two
  eigensolvers (each returns the eigenvalues and a matrix with one eigenvector per column).
  They are parameters of the model; a failure of a collaborator is \<open>Inl\<close> of its message.
\<close>

record 'p collab =
  spsolve_pardiso :: "cmat \<Rightarrow> complex list \<Rightarrow> string + complex list"
  spilu :: "cmat \<Rightarrow> string + 'p"
  gmres :: "cmat \<Rightarrow> complex list \<Rightarrow> 'p \<Rightarrow> string + complex list \<times> int"
  bicgstab :: "cmat \<Rightarrow> complex list \<Rightarrow> 'p \<Rightarrow> string + complex list \<times> int"
  eigs :: "cmat \<Rightarrow> int \<Rightarrow> real \<Rightarrow> real \<Rightarrow> string + complex list \<times> cmat"
  feast_eigs :: "cmat \<Rightarrow> real \<times> real \<Rightarrow> int \<Rightarrow> string + complex list \<times> cmat"

definition external :: "string + 'a \<Rightarrow> error + 'a" where
  "external r = (case r of Inl m \<Rightarrow> Inl (External m) | Inr x \<Rightarrow> Inr x)"

text \<open>
  What \<open>FDFD.solve\<close> returns: an array, or the pair (solution, status) that an iterative
  solver returns.
\<close>

datatype solve_out = Field "complex ndarray" | IterPair "complex list" int

definition src_msg :: string where
  "src_msg = ''Expected src.size == 3n or n''"

definition nd_size :: "'a ndarray \<Rightarrow> nat" where
  "nd_size a = length (dat a)"

definition vec :: "'a list \<Rightarrow> 'a ndarray" where
  "vec xs = \<lparr>shp = [length xs], dat = xs\<rparr>"

text \<open>
  \<open>FDFD.solve\<close>.  In the first branch the matrix \<open>self.mat\<close> is read several times; every
  reading after the first finds \<open>eps_t\<close> in the cache, so one reading is modelled.  The
  result of an iterative solver is a tuple, which \<open>Grid.reshape\<close> cannot take
  (\<open>AttributeError\<close>: a tuple has no \<open>ndim\<close>).  In the second branch
  \<open>np.vstack((o, o, hz))\<close> is two-dimensional.
\<close>

definition solve ::
  "pystate \<Rightarrow> 'z FDFD_scheme \<Rightarrow> 'p collab \<Rightarrow> complex ndarray
     \<Rightarrow> (cmat \<Rightarrow> complex list \<Rightarrow> string + complex list) option \<Rightarrow> bool \<Rightarrow> int
     \<Rightarrow> (error + solve_out) \<times> pystate" where
  "solve st g C src solver_fn reshaped iterative =
     (let b = map (\<lambda>x. complex_of_real (k0 g) * x) (dat (np_flatten src));
          finish = (\<lambda>e. if reshaped
                         then (case reshape g e of Inl err \<Rightarrow> Inl err | Inr r \<Rightarrow> Inr (Field r))
                         else Inr (Field e))
      in if nd_size (vec b) = grid_n g * 3
         then (case mat st g of
                 (Inl err, st1) \<Rightarrow> (Inl err, st1)
               | (Inr A, st1) \<Rightarrow>
                   if iterative = - 1 \<and> Option.is_none solver_fn \<and> ndim g = 3
                   then (case external (spilu C A) of
                           Inl err \<Rightarrow> (Inl err, st1)
                         | Inr M \<Rightarrow>
                             (case external (if iterative = 1 then gmres C A b M
                                             else bicgstab C A b M) of
                                Inl err \<Rightarrow> (Inl err, st1)
                              | Inr (x, info) \<Rightarrow>
                                  if reshaped
                                  then (Inl (Raise AttributeError
                                               ''tuple object has no attribute ndim''), st1)
                                  else (Inr (IterPair x info), st1)))
                   else (case external (case solver_fn of Some f \<Rightarrow> f A b
                                        | None \<Rightarrow> spsolve_pardiso C A b) of
                           Inl err \<Rightarrow> (Inl err, st1)
                         | Inr e \<Rightarrow> (finish (vec e), st1)))
         else if nd_size (vec b) = grid_n g
         then (case matz st g of
                 (Inl err, st1) \<Rightarrow> (Inl err, st1)
               | (Inr Az, st1) \<Rightarrow>
                   (case external (case solver_fn of Some f \<Rightarrow> f Az b
                                   | None \<Rightarrow> spsolve_pardiso C Az b) of
                      Inl err \<Rightarrow> (Inl err, st1)
                    | Inr hz \<Rightarrow>
                        let oo = map (\<lambda>_. 0) hz
                        in (finish \<lparr>shp = [3, length hz], dat = oo @ oo @ hz\<rparr>, st1)))
         else (Inl (Raise ValueError src_msg), st))"

subsection \<open>The mode solver\<close>

datatype beta_guess = BgNone | BgFloat real | BgTuple real real | BgOther

text \<open>
  \<open>np.sqrt\<close> of a real array gives NaN on a negative number, and \<open>np.argsort\<close> puts
  NaN last.  The sort key of a real number is therefore a pair, ordered lexicographically:
  whether its square root is NaN, and the square root.  \<open>np.argsort\<close> (quicksort by
  default) sorts an array of at most 16 elements by insertion, which keeps equal keys in
  their order; when all keys differ the order does not depend on the algorithm.  The order
  of equal keys in a longer array is not modelled.
\<close>

definition np_sqrt_key :: "real \<Rightarrow> bool \<times> real" where
  "np_sqrt_key x = (if x < 0 then (True, 0) else (False, sqrt x))"

definition np_argsort :: "(bool \<times> real) list \<Rightarrow> error + nat list" where
  "np_argsort ks =
     (if length ks \<le> 16 \<or> distinct ks
      then Inr (sort_key (\<lambda>i. ks ! i) [0..<length ks])
      else Inl (External ''np.argsort: order of equal keys''))"

text \<open>
  \<open>np.sign\<close> of a complex number (NumPy before 2.0): the sign of the real part, or of
  the imaginary part when the real part is zero.
\<close>

definition np_sign :: "complex \<Rightarrow> complex" where
  "np_sign z = (if Re z \<noteq> 0 then complex_of_real (sgn (Re z)) else complex_of_real (sgn (Im z)))"

text \<open>
  Operations on dense matrices: division and multiplication of every row by a vector
  (broadcasting along the rows), selection of columns, and the transpose.
\<close>

definition row_div :: "cmat \<Rightarrow> complex list \<Rightarrow> cmat" where
  "row_div A v = \<lparr>nrows = nrows A, ncols = ncols A, ent = (\<lambda>i j. ent A i j / v ! j)\<rparr>"

definition row_mul :: "cmat \<Rightarrow> complex list \<Rightarrow> cmat" where
  "row_mul A v = \<lparr>nrows = nrows A, ncols = ncols A, ent = (\<lambda>i j. ent A i j * v ! j)\<rparr>"

definition select_cols :: "cmat \<Rightarrow> nat list \<Rightarrow> cmat" where
  "select_cols A inds =
     \<lparr>nrows = nrows A, ncols = length inds, ent = (\<lambda>i j. ent A i (inds ! j))\<rparr>"

definition mat_T :: "cmat \<Rightarrow> cmat" where
  "mat_T A = \<lparr>nrows = ncols A, ncols = nrows A, ent = (\<lambda>i j. ent A j i)\<rparr>"

text \<open>
  The part of \<open>FDFD.wgm_solve\<close> after the eigensolver: the order of the modes, the third
  field component, the phase or sign factor taken from the first row \<open>h[:1, :]\<close>, and the
  result.  The eigensolver returns one column of \<open>eigvecs\<close> per eigenvalue.
\<close>

definition wgm_modes ::
  "'z FDFD_scheme \<Rightarrow> complex list \<Rightarrow> cmat \<Rightarrow> error + complex list \<times> cmat" where
  "wgm_modes g eigvals eigvecs =
     (let df1 = df g
      in case np_argsort (map (\<lambda>v. np_sqrt_key (Re v)) eigvals) of
           Inl err \<Rightarrow> Inl err
         | Inr inds \<Rightarrow>
             let inds_sorted = rev inds;
                 h = (if 1 < ndim g
                      then sp_vstack2 eigvecs
                             (row_div (matmul (sp_hstack2 (df1 ! 0) (df1 ! 1)) eigvecs)
                                (map (\<lambda>v. \<i> * csqrt v) eigvals))
                      else eigvecs);
                 factor = (if dtype g = Complex128
                           then map (\<lambda>j. np_exp (- \<i> * complex_of_real (np_angle (ent h 0 j))))
                                  [0..<ncols h]
                           else map (\<lambda>j. np_sign (ent h 0 j)) [0..<ncols h]);
                 h = row_mul h factor
             in Inr (map (\<lambda>i. csqrt (eigvals ! i)) inds_sorted,
                     mat_T (select_cols h inds_sorted)))"

text \<open>
  \<open>FDFD.wgm_solve\<close>.  A \<open>beta_guess\<close> that is \<open>None\<close> or \<open>0.0\<close> is replaced by the
  default shift; \<open>np.max\<close> of an empty array raises \<open>ValueError\<close>.
\<close>

definition wgm_solve ::
  "pystate \<Rightarrow> 'z FDFD_scheme \<Rightarrow> 'p collab \<Rightarrow> int \<Rightarrow> beta_guess \<Rightarrow> real
     \<Rightarrow> (error + complex list \<times> cmat) \<times> pystate" where
  "wgm_solve st g C num_modes bg tol =
     (let default = (\<lambda>u::unit.
            if dat (heap st (eps g)) = []
            then Inl (Raise ValueError ''zero-size array to reduction operation maximum'')
            else Inr ((k0 g * sqrt (Max (set (dat (heap st (eps g))))))\<^sup>2));
          run = (\<lambda>solver. case wgm st g of
                             (Inl err, st1) \<Rightarrow> (Inl err, st1)
                           | (Inr A, st1) \<Rightarrow>
                               (case external (solver A) of
                                  Inl err \<Rightarrow> (Inl err, st1)
                                | Inr (eigvals, eigvecs) \<Rightarrow>
                                    (wgm_modes g eigvals eigvecs, st1)))
      in case bg of
           BgOther \<Rightarrow> (Inl (Raise TypeError ''Expected beta_guess to be None, float, or Tuple''), st)
         | BgTuple lo hi \<Rightarrow> run (\<lambda>A. feast_eigs C A (lo\<^sup>2, hi\<^sup>2) num_modes)
         | other \<Rightarrow>
             (case (case other of BgFloat x \<Rightarrow> if x \<noteq> 0 then Inr (x\<^sup>2) else default ()
                    | _ \<Rightarrow> default ()) of
                Inl err \<Rightarrow> (Inl err, st)
              | Inr sigma \<Rightarrow> run (\<lambda>A. eigs C A num_modes sigma tol)))"

text \<open>
  The contract of the eigensolvers that the properties below rely on: one column of
  eigenvectors per eigenvalue.
\<close>

definition eigen_contract :: "'p collab \<Rightarrow> bool" where
  "eigen_contract C \<longleftrightarrow>
     (\<forall>A k s t vals vecs. eigs C A k s t = Inr (vals, vecs) \<longrightarrow> ncols vecs = length vals)
     \<and> (\<forall>A r k vals vecs. feast_eigs C A r k = Inr (vals, vecs) \<longrightarrow> ncols vecs = length vals)"

section \<open>\<open>Modes\<close> and the mutation of \<open>eps\<close>\<close>

text \<open>
  \<open>copy.deepcopy\<close> of a grid object copies the attributes in the order of their
  assignment and builds a new object from the copies.  The permittivity array is copied to a
  new address.  A module cannot be copied: \<open>copy.deepcopy\<close> of a module raises
  \<open>TypeError\<close>, and the attribute \<open>xp\<close> of every grid object is a module.
\<close>

definition module_msg :: string where
  "module_msg = ''cannot pickle 'module' object''"

definition deepcopy_module :: "pymodule \<Rightarrow> error + pymodule" where
  "deepcopy_module m = Inl (Raise TypeError module_msg)"

definition deepcopy :: "pystate \<Rightarrow> FDFD \<Rightarrow> (error + FDFD) \<times> pystate" where
  "deepcopy st g =
     (let (a, st1) = alloc st (heap st (eps g))
      in case deepcopy_module (xp g) of
           Inl err \<Rightarrow> (Inl err, st1)
         | Inr m \<Rightarrow>
             let (i, st2) = new_oid st1
             in (Inr (g\<lparr>oid := i, eps := a, xp := m\<rparr>), st2))"

text \<open>
  The attributes that \<open>Modes.__init__\<close> sets; \<open>modes_eps\<close> is the attribute \<open>eps\<close>
  (an address) and \<open>modes_m\<close> the attribute \<open>m\<close>.
\<close>

record Modes =
  betas :: "real list"
  modes :: cmat
  fdfd :: FDFD
  modes_eps :: nat
  num_modes :: nat
  modes_m :: nat

definition Modes_init ::
  "pystate \<Rightarrow> complex list \<Rightarrow> cmat \<Rightarrow> FDFD \<Rightarrow> (error + Modes) \<times> pystate" where
  "Modes_init st betas0 modes0 fdfd0 =
     (case deepcopy st fdfd0 of
        (Inl err, st1) \<Rightarrow> (Inl err, st1)
      | (Inr copied, st1) \<Rightarrow>
          (Inr \<lparr>betas = map Re betas0, modes = modes0, fdfd = copied, modes_eps = eps fdfd0,
                num_modes = length betas0, modes_m = length betas0\<rparr>, st1))"

text \<open>
  Two ways in which a caller changes the permittivity of a live grid: the assignment
  \<open>grid.eps = array\<close> of \<open>ModeDevice.solve\<close>, and the in-place write of \<open>Grid.fill\<close>,
  \<open>self.eps[..., :int(zmax / self.spacing[-1])] = eps\<close>, which sets every element whose
  last coordinate is below the bound (a negative bound counts from the end, as a Python
  slice does).
\<close>

definition assign_eps :: "'z Grid_scheme \<Rightarrow> nat \<Rightarrow> 'z Grid_scheme" where
  "assign_eps g a = g\<lparr>eps := a\<rparr>"

definition py_int :: "real \<Rightarrow> int" where
  "py_int x = (if 0 \<le> x then \<lfloor>x\<rfloor> else \<lceil>x\<rceil>)"

definition fill :: "pystate \<Rightarrow> 'z Grid_scheme \<Rightarrow> real \<Rightarrow> real \<Rightarrow> pystate" where
  "fill st g zmax eps0 =
     (let a = heap st (eps g);
          l = int (last (shp a));
          k = py_int (zmax / last (spacing g));
          bound = (if 0 \<le> k then min k l else max (l + k) 0)
      in st\<lparr>heap := (heap st)(eps g :=
              a\<lparr>dat := map (\<lambda>i. if int (i mod last (shp a)) < bound then eps0 else dat a ! i)
                         [0..<length (dat a)]\<rparr>)\<rparr>)"

section \<open>Example inputs\<close>

text \<open>
  Collaborators for concrete calls: \<open>no_collab\<close> has no working solver, and
  \<open>eigs_returning vals vecs\<close> has an \<open>eigs\<close> that answers with the given eigenpairs.
  \<open>dense rows\<close> is the matrix with the given rows.
\<close>

definition no_collab :: "unit collab" where
  "no_collab =
     \<lparr>spsolve_pardiso = (\<lambda>A b. Inl ''unavailable''), spilu = (\<lambda>A. Inl ''unavailable''),
      gmres = (\<lambda>A b M. Inl ''unavailable''), bicgstab = (\<lambda>A b M. Inl ''unavailable''),
      eigs = (\<lambda>A k s t. Inl ''unavailable''), feast_eigs = (\<lambda>A r k. Inl ''unavailable'')\<rparr>"

definition eigs_returning :: "complex list \<Rightarrow> cmat \<Rightarrow> unit collab" where
  "eigs_returning vals vecs = no_collab\<lparr>eigs := (\<lambda>A k s t. Inr (vals, vecs))\<rparr>"

definition dense :: "complex list list \<Rightarrow> cmat" where
  "dense rows =
     \<lparr>nrows = length rows, ncols = length (hd rows),
      ent = (\<lambda>i j. if i < length rows \<and> j < length (hd rows) then rows ! i ! j else 0)\<rparr>"

text \<open>
  \<open>eigenpairs A vals vecs\<close>: every column of \<open>vecs\<close> is a non-zero vector that \<open>A\<close>
  maps to its multiple by the eigenvalue of the same position.
\<close>

definition eigenpairs :: "cmat \<Rightarrow> complex list \<Rightarrow> cmat \<Rightarrow> bool" where
  "eigenpairs A vals vecs \<longleftrightarrow>
     nrows vecs = ncols A \<and> ncols vecs = length vals
     \<and> list_all (\<lambda>i. list_all (\<lambda>j. ent (matmul A vecs) i j = vals ! j * ent vecs i j)
                          [0..<length vals]) [0..<nrows A]
     \<and> list_all (\<lambda>j. list_ex (\<lambda>i. ent vecs i j \<noteq> 0) [0..<nrows vecs]) [0..<length vals]"

text \<open>
  Two eigenvectors of the waveguide-mode operator of a uniform one-dimensional grid of four
  cells, one per column: the constant field and the field \<open>(1, 0, -1, 0)\<close>.
\<close>

definition ex_vecs :: cmat where
  "ex_vecs = dense [[1, 1], [1, 0], [1, - 1], [1, 0]]"

text \<open>The constant field \<open>-1/2\<close> on the same grid, of unit norm.\<close>

definition ex_vec :: cmat where
  "ex_vec = dense [[- 1 / 2], [- 1 / 2], [- 1 / 2], [- 1 / 2]]"

section \<open>Auxiliary notions for the proofs\<close>

text \<open>
  The two single-axis difference matrices of \<open>deriv\<close>, named so that the proofs can
  speak about them.
\<close>

definition axis_f :: "nat \<Rightarrow> complex \<Rightarrow> cmat" where
  "axis_f m b = (if 1 < m then sp_diags [- 1, 1, b] [0, 1, - int m + 1] m else scalar0)"

definition axis_b :: "nat \<Rightarrow> complex \<Rightarrow> cmat" where
  "axis_b m b = (if 1 < m then sp_diags [1, - 1, - cnj b] [0, - 1, int m - 1] m else scalar0)"

section \<open>Properties\<close>

lemma prod_list_replicate_one: "prod_list (xs @ replicate k (1::nat)) = prod_list xs"
  by (induction k) (simp_all add: replicate_append_same [symmetric] del: replicate.simps)

lemma Grid_init_shape3:
  assumes "Grid_init st sh sp e = (Inr g, st')"
  shows "shape3 g = shape g @ replicate (3 - ndim g) 1" and "grid_n g = prod_list (shape g)"
    and "ndim g = length (shape g)" and "shape g = sh"
  using assms
  by (auto simp: Grid_init_def Let_def split: if_splits prod.splits)

lemma Grid_init_n_shape3:
  assumes "Grid_init st sh sp e = (Inr g, st')"
  shows "prod_list (shape3 g) = grid_n g"
  using Grid_init_shape3 [OF assms] by (simp add: prod_list_replicate_one)

lemma three_parts:
  assumes "length xs = 3 * m"
  shows "take m xs @ take m (drop m xs) @ take m (drop (2 * m) xs) = xs"
proof -
  have "take m (drop (2 * m) xs) = drop (2 * m) xs"
    using assms by simp
  moreover have "take m (drop m xs) @ drop (2 * m) xs = drop m xs"
    by (metis add.commute drop_drop mult_2 append_take_drop_id)
  ultimately show ?thesis by simp
qed

lemma reshape_flat:
  assumes "prod_list (shape3 g) = m" and "shp v = [3 * m]" and "length (dat v) = 3 * m"
  shows "reshape g v = Inr \<lparr>shp = 3 # shape3 g, dat = dat v\<rparr>"
proof -
  have split: "np_split3 v =
      Inr (map (\<lambda>k. \<lparr>shp = [m], dat = take m (drop (k * m) (dat v))\<rparr>) [0, 1, 2])"
    using assms by (simp add: np_split3_def)
  have "reshape g v = np_stack (map (\<lambda>k. \<lparr>shp = shape3 g, dat = take m (drop (k * m) (dat v))\<rparr>)
                                 [0, 1, 2])"
    using assms by (simp add: reshape_def split np_reshape_def)
  also have "\<dots> = Inr \<lparr>shp = 3 # shape3 g,
                       dat = take m (dat v) @ take m (drop m (dat v))
                             @ take m (drop (2 * m) (dat v))\<rparr>"
    by (simp add: np_stack_def)
  finally show ?thesis using three_parts [OF assms(3)] by simp
qed

text \<open>
  Claim C10.  For a grid built by \<open>Grid.__init__\<close> and a one-dimensional array \<open>v\<close> of
  \<open>3 n\<close> elements, \<open>reshape v\<close> succeeds and has shape \<open>(3, *shape3)\<close>, and reshaping
  that result again succeeds and gives back \<open>v\<close>.
\<close>

theorem reshape_involution:
  assumes "Grid_init st sh sp e = (Inr g, st')"
    and "shp v = [3 * grid_n g]" and "length (dat v) = 3 * grid_n g"
  shows "\<exists>w. reshape g v = Inr w \<and> shp w = 3 # shape3 g \<and> reshape g w = Inr v"
proof -
  let ?w = "\<lparr>shp = 3 # shape3 g, dat = dat v\<rparr>"
  have w: "reshape g v = Inr ?w"
    using reshape_flat [OF Grid_init_n_shape3 [OF assms(1)] assms(2,3)] .
  have "length (shape3 g) = 3"
    using Grid_init_shape3 [OF assms(1)] assms(1)
    by (auto simp: Grid_init_def Let_def split: if_splits prod.splits)
  then have "reshape g ?w = Inr (np_flatten ?w)"
    by (simp add: reshape_def)
  also have "np_flatten ?w = v"
    using assms(2,3) by (simp add: np_flatten_def)
  finally show ?thesis using w by simp
qed

theorem reshape_involution_witness:
  "\<exists>g st'. Grid_init init_state [2] (SpacingFloat 1) (EpsFloat 1) = (Inr g, st')
     \<and> (\<exists>w. reshape g \<lparr>shp = [6], dat = [1, 2, 3, 4, 5, 6 :: real]\<rparr> = Inr w
            \<and> shp w = [3, 2, 1, 1]
            \<and> reshape g w = Inr \<lparr>shp = [6], dat = [1, 2, 3, 4, 5, 6 :: real]\<rparr>)"
proof -
  obtain g st' where h: "Grid_init init_state [2] (SpacingFloat 1) (EpsFloat 1) = (Inr g, st')"
    and g: "grid_n g = 2" "shape3 g = [2, 1, 1]"
    by (simp add: Grid_init_def init_state_def alloc_def new_oid_def Let_def numeral_2_eq_2)
  let ?v = "\<lparr>shp = [6], dat = [1, 2, 3, 4, 5, 6 :: real]\<rparr>"
  have "shp ?v = [3 * grid_n g]" and "length (dat ?v) = 3 * grid_n g"
    using g by simp_all
  from reshape_involution [OF h this] h g show ?thesis by auto
qed

subsection \<open>Double precision\<close>

text \<open>
  Bounds of \<open>\<pi>\<close> to 33 decimals, from Machin's formula and the alternating series of
  the arctangent.
\<close>

lemma arctan_partial_sums:
  fixes x :: real
  assumes "0 < x" "x \<le> 1"
  shows "(\<Sum>k<2 * n. (- 1) ^ k * (1 / real (k * 2 + 1) * x ^ (k * 2 + 1))) \<le> arctan x"
    and "arctan x \<le> (\<Sum>k<2 * n + 1. (- 1) ^ k * (1 / real (k * 2 + 1) * x ^ (k * 2 + 1)))"
proof -
  have ax: "\<bar>x\<bar> \<le> 1" using assms by simp
  have "0 < 1 / real (0 * 2 + 1) * x ^ (0 * 2 + 1)" using assms by simp
  with summable_Leibniz(2) [OF zeroseq_arctan_series [OF ax] monoseq_arctan_series [OF ax]]
  have "(\<Sum>k. (- 1) ^ k * (1 / real (k * 2 + 1) * x ^ (k * 2 + 1)))
      \<in> {\<Sum>k<2 * n. (- 1) ^ k * (1 / real (k * 2 + 1) * x ^ (k * 2 + 1)) ..
         \<Sum>k<2 * n + 1. (- 1) ^ k * (1 / real (k * 2 + 1) * x ^ (k * 2 + 1))}"
    by blast
  then show "(\<Sum>k<2 * n. (- 1) ^ k * (1 / real (k * 2 + 1) * x ^ (k * 2 + 1))) \<le> arctan x"
    and "arctan x \<le> (\<Sum>k<2 * n + 1. (- 1) ^ k * (1 / real (k * 2 + 1) * x ^ (k * 2 + 1)))"
    unfolding arctan_series [OF ax] by simp_all
qed

lemma pi_bounds:
  "3141592653589793238462643383279502 / 10 ^ 33 < pi"
  "pi < 3141592653589793238462643383279503 / 10 ^ 33"
proof -
  have m: "pi = 16 * arctan (1 / 5) - 4 * arctan (1 / 239)"
    using machin by simp
  have l5: "(\<Sum>k<2 * 12. (- 1) ^ k * (1 / real (k * 2 + 1) * (1 / 5) ^ (k * 2 + 1)))
      \<le> arctan (1 / 5)"
    by (rule arctan_partial_sums) simp_all
  have u5: "arctan (1 / 5)
      \<le> (\<Sum>k<2 * 12 + 1. (- 1) ^ k * (1 / real (k * 2 + 1) * (1 / 5) ^ (k * 2 + 1)))"
    by (rule arctan_partial_sums) simp_all
  have l239: "(\<Sum>k<2 * 4. (- 1) ^ k * (1 / real (k * 2 + 1) * (1 / 239) ^ (k * 2 + 1)))
      \<le> arctan (1 / 239)"
    by (rule arctan_partial_sums) simp_all
  have u239: "arctan (1 / 239)
      \<le> (\<Sum>k<2 * 3 + 1. (- 1) ^ k * (1 / real (k * 2 + 1) * (1 / 239) ^ (k * 2 + 1)))"
    by (rule arctan_partial_sums) simp_all
  have "3141592653589793238462643383279502 / 10 ^ 33
      < 16 * (\<Sum>k<2 * 12. (- 1) ^ k * (1 / real (k * 2 + 1) * (1 / 5) ^ (k * 2 + 1)))
        - 4 * (\<Sum>k<2 * 3 + 1. (- 1) ^ k * (1 / real (k * 2 + 1) * (1 / 239) ^ (k * 2 + 1)))"
    by (simp add: numeral_eq_Suc lessThan_Suc)
  also have "\<dots> \<le> pi" unfolding m using l5 u239 by simp
  finally show "3141592653589793238462643383279502 / 10 ^ 33 < pi" .
  have "pi \<le> 16 * (\<Sum>k<2 * 12 + 1. (- 1) ^ k * (1 / real (k * 2 + 1) * (1 / 5) ^ (k * 2 + 1)))
        - 4 * (\<Sum>k<2 * 4. (- 1) ^ k * (1 / real (k * 2 + 1) * (1 / 239) ^ (k * 2 + 1)))"
    unfolding m using u5 l239 by simp
  also have "\<dots> < 3141592653589793238462643383279503 / 10 ^ 33"
    by (simp add: numeral_eq_Suc lessThan_Suc)
  finally show "pi < 3141592653589793238462643383279503 / 10 ^ 33" .
qed

text \<open>
  Rounding: a number within one half of an integer rounds to it, and \<open>float64\<close> of a
  number of binary exponent \<open>e\<close> rounds its multiple by \<open>2^(52 - e)\<close>.
\<close>

lemma rne_of_int: "rne (of_int k) = k"
  by (simp add: rne_def)

lemma rne_near: "of_int k - 1 / 2 < x \<Longrightarrow> x < of_int k + 1 / 2 \<Longrightarrow> rne x = k"
proof -
  assume a: "of_int k - 1 / 2 < x" "x < of_int k + 1 / 2"
  show ?thesis
  proof (cases "of_int k \<le> x")
    case True
    then have "\<lfloor>x\<rfloor> = k" using a by linarith
    then show ?thesis using a True by (simp add: rne_def)
  next
    case False
    then have "\<lfloor>x\<rfloor> = k - 1" using a by linarith
    then show ?thesis using a False by (simp add: rne_def)
  qed
qed

lemma float64_eq:
  assumes "2 powr of_int e \<le> \<bar>x\<bar>" "\<bar>x\<bar> < 2 powr (of_int e + 1)"
  shows "float64 x = of_int (rne (x * 2 powr of_int (52 - e))) * 2 powr of_int (e - 52)"
proof -
  have "0 < \<bar>x\<bar>"
    using assms(1) by (rule less_le_trans [rotated]) simp
  then have x: "x \<noteq> 0" by simp
  then have "\<lfloor>log 2 \<bar>x\<bar>\<rfloor> = e"
    using assms by (subst floor_log_eq_powr_iff) simp_all
  then show ?thesis
    using x by (simp add: float64_def Let_def)
qed

lemma float64_zero [simp]: "float64 0 = 0"
  by (simp add: float64_def)

lemma float64_one [simp]: "float64 1 = 1"
proof -
  have "2 powr of_int 0 \<le> \<bar>1::real\<bar>" "\<bar>1::real\<bar> < 2 powr (of_int 0 + 1)"
    by simp_all
  then have "float64 1 = of_int (rne (1 * 2 powr of_int (52 - 0))) * 2 powr of_int (0 - 52)"
    by (rule float64_eq)
  moreover have "2 powr of_int (52 - 0) = (2::real) ^ 52" "2 powr of_int (0 - 52) = 1 / (2::real) ^ 52"
    by (simp_all add: powr_minus_divide)
  moreover have "rne (1 * 2 ^ 52) = 2 ^ 52"
    using rne_of_int [of "2 ^ 52"] by simp
  ultimately show ?thesis by simp
qed

lemma float64_minus_one: "float64 (- 1) = - 1"
proof -
  have "2 powr of_int 0 \<le> \<bar>- 1::real\<bar>" "\<bar>- 1::real\<bar> < 2 powr (of_int 0 + 1)"
    by simp_all
  then have "float64 (- 1) = of_int (rne (- 1 * 2 powr of_int (52 - 0))) * 2 powr of_int (0 - 52)"
    by (rule float64_eq)
  moreover have "2 powr of_int (52 - 0) = (2::real) ^ 52" "2 powr of_int (0 - 52) = 1 / (2::real) ^ 52"
    by (simp_all add: powr_minus_divide)
  moreover have "rne (- 1 * 2 ^ 52) = - (2 ^ 52)"
    using rne_of_int [of "- (2 ^ 52)"] by simp
  ultimately show ?thesis by simp
qed

lemma np_exp_zero [simp]: "np_exp 0 = 1"
  by (simp add: np_exp_def complex_eq_iff)

text \<open>
  The double nearest to \<open>\<pi>\<close> is \<open>7074237752028440 / 2^51\<close>; it lies below \<open>\<pi>\<close> by
  about \<open>1.2246 \<times> 10^-16\<close>.  Its sine is therefore about \<open>1.2246 \<times> 10^-16\<close>, which
  rounds to \<open>4967757600021511 / 2^105\<close>, and its cosine rounds to \<open>-1\<close>: the values
  that \<open>math.sin(math.pi)\<close> and \<open>math.cos(math.pi)\<close> return.
\<close>

lemma float64_pi: "float64 pi = 7074237752028440 / 2 ^ 51"
proof -
  have "2 powr of_int 1 \<le> \<bar>pi\<bar>" "\<bar>pi\<bar> < 2 powr (of_int 1 + 1)"
    using pi_ge_two pi_less_4 by simp_all
  then have "float64 pi = of_int (rne (pi * 2 powr of_int (52 - 1))) * 2 powr of_int (1 - 52)"
    by (rule float64_eq)
  moreover have "2 powr of_int (52 - 1) = (2::real) ^ 51" "2 powr of_int (1 - 52) = 1 / (2::real) ^ 51"
    by (simp_all add: powr_minus_divide)
  moreover have "rne (pi * 2 ^ 51) = 7074237752028440"
    by (rule rne_near) (use pi_bounds in simp_all)
  ultimately show ?thesis by simp
qed

lemma sin_cubic:
  fixes x :: real
  assumes x: "0 \<le> x"
  shows "x - x ^ 3 / 6 \<le> sin x"
proof -
  have c: "sin_coeff 0 = 0" "sin_coeff (Suc 0) = 1" "sin_coeff 2 = 0"
    by (simp_all add: sin_coeff_def)
  have "{..<3::nat} = {0, 1, 2}" by auto
  then have "(\<Sum>m<3. sin_coeff m * x ^ m) = x"
    by (simp add: c)
  with Maclaurin_sin_bound [of x 3] have "\<bar>sin x - x\<bar> \<le> inverse (fact 3) * \<bar>x\<bar> ^ 3"
    by simp
  moreover have "(fact 3 :: real) = 6" by (simp add: fact_numeral)
  ultimately have "\<bar>sin x - x\<bar> \<le> x ^ 3 / 6"
    using x by simp
  then show ?thesis by linarith
qed

lemma sin_float64_pi_bounds:
  "4967757600021511 / 2 ^ 105 - 1 / 2 ^ 106 < sin (float64 pi)"
  "sin (float64 pi) < 4967757600021511 / 2 ^ 105"
proof -
  define d where "d = pi - float64 pi"
  define lo :: real
    where "lo = 3141592653589793238462643383279502 / 10 ^ 33 - 7074237752028440 / 2 ^ 51"
  define hi :: real
    where "hi = 3141592653589793238462643383279503 / 10 ^ 33 - 7074237752028440 / 2 ^ 51"
  have d: "lo < d" "d < hi"
    using pi_bounds by (simp_all add: d_def float64_pi lo_def hi_def)
  have lo0: "0 \<le> lo" by (simp add: lo_def)
  then have d0: "0 \<le> d" using d(1) by simp
  have s: "sin (float64 pi) = sin d"
    by (simp add: d_def)
  have "d ^ 3 \<le> hi ^ 3"
    using d0 d(2) by (intro power_mono) simp_all
  moreover have "4967757600021511 / 2 ^ 105 - 1 / 2 ^ 106 < lo - hi ^ 3 / 6"
    by (simp add: lo_def hi_def power3_eq_cube)
  ultimately have "4967757600021511 / 2 ^ 105 - 1 / 2 ^ 106 < d - d ^ 3 / 6"
    using d(1) by linarith
  also have "\<dots> \<le> sin d" using d0 by (rule sin_cubic)
  finally show "4967757600021511 / 2 ^ 105 - 1 / 2 ^ 106 < sin (float64 pi)"
    by (simp add: s)
  have "sin d \<le> d" using d0 by (rule sin_x_le_x)
  also have "d < hi" by (rule d(2))
  also have "hi < 4967757600021511 / 2 ^ 105" by (simp add: hi_def)
  finally show "sin (float64 pi) < 4967757600021511 / 2 ^ 105"
    by (simp add: s)
qed

lemma float64_sin: "float64 (- sin (float64 pi)) = - (4967757600021511 / 2 ^ 105)"
proof -
  define s where "s = - sin (float64 pi)"
  have b: "- (4967757600021511 / 2 ^ 105) < s" "s < - (4967757600021511 / 2 ^ 105) + 1 / 2 ^ 106"
    using sin_float64_pi_bounds by (simp_all add: s_def)
  have "2 powr of_int (- 53) \<le> \<bar>s\<bar>" "\<bar>s\<bar> < 2 powr (of_int (- 53) + 1)"
    using b by (simp_all add: powr_minus_divide)
  then have "float64 s = of_int (rne (s * 2 powr of_int (52 - - 53))) * 2 powr of_int (- 53 - 52)"
    by (rule float64_eq)
  moreover have "2 powr of_int (52 - - 53) = (2::real) ^ 105"
    "2 powr of_int (- 53 - 52) = 1 / (2::real) ^ 105"
    by (simp_all add: powr_minus_divide)
  moreover have "rne (s * 2 ^ 105) = - 4967757600021511"
    by (rule rne_near) (use b in \<open>simp_all add: field_simps\<close>)
  ultimately show ?thesis
    by (simp add: s_def)
qed

lemma cos_float64_pi_bounds: "- 1 \<le> cos (float64 pi)" "cos (float64 pi) < - 1 + 1 / 2 ^ 54"
proof -
  define d where "d = pi - float64 pi"
  have d: "0 < d" "d < 1 / 2 ^ 52"
    using pi_bounds by (simp_all add: d_def float64_pi)
  have c: "cos (float64 pi) = - cos d"
    by (simp add: d_def)
  show "- 1 \<le> cos (float64 pi)" by simp
  have "\<bar>sin (d / 2)\<bar> \<le> \<bar>d / 2\<bar>" by (rule abs_sin_x_le_abs_x)
  then have "\<bar>sin (d / 2)\<bar> \<le> 1 / 2 ^ 53"
    using d by simp
  then have "\<bar>sin (d / 2)\<bar> ^ 2 \<le> (1 / 2 ^ 53) ^ 2"
    by (intro power_mono) simp_all
  moreover have "((1::real) / 2 ^ 53) ^ 2 = 1 / 2 ^ 106"
    by (simp add: power2_eq_square)
  ultimately have "sin (d / 2) ^ 2 \<le> 1 / 2 ^ 106"
    by simp
  then have "1 - 1 / 2 ^ 105 \<le> 1 - 2 * sin (d / 2) ^ 2" by simp
  moreover have "cos d = 1 - 2 * sin (d / 2) ^ 2"
    using cos_double_sin [of "d / 2"] by simp
  ultimately have "1 - 1 / 2 ^ 105 \<le> cos d" by simp
  then show "cos (float64 pi) < - 1 + 1 / 2 ^ 54"
    unfolding c by simp
qed

lemma float64_cos: "float64 (cos (float64 pi)) = - 1"
proof (cases "cos (float64 pi) = - 1")
  case True
  then show ?thesis by (simp add: float64_minus_one)
next
  case False
  define c where "c = cos (float64 pi)"
  have "- 1 \<le> c" "c \<noteq> - 1"
    using False by (simp_all add: c_def)
  then have "- 1 < c" by linarith
  moreover have "c < - 1 + 1 / 2 ^ 54"
    using cos_float64_pi_bounds(2) by (simp add: c_def)
  ultimately have b: "- 1 < c" "c < - 1 + 1 / 2 ^ 54" .
  have "2 powr of_int (- 1) \<le> \<bar>c\<bar>" "\<bar>c\<bar> < 2 powr (of_int (- 1) + 1)"
    using b by (simp_all add: powr_minus_divide)
  then have "float64 c = of_int (rne (c * 2 powr of_int (52 - - 1))) * 2 powr of_int (- 1 - 52)"
    by (rule float64_eq)
  moreover have "2 powr of_int (52 - - 1) = (2::real) ^ 53"
    "2 powr of_int (- 1 - 52) = 1 / (2::real) ^ 53"
    by (simp_all add: powr_minus_divide)
  moreover have "rne (c * 2 ^ 53) = - (2 ^ 53)"
    by (rule rne_near) (use b in \<open>simp_all add: field_simps\<close>)
  ultimately show ?thesis
    by (simp add: c_def)
qed

text \<open>
  The phase factor does not bring a negative real number \<open>r\<close> back to the real axis:
  \<open>np.angle(r)\<close> is the double below \<open>\<pi>\<close>, and \<open>np.exp(-1j * np.angle(r))\<close> is
  \<open>-1 - 1.2246 \<times> 10^-16 j\<close>.
\<close>

lemma Arg_zero_Im: "Arg z = 0 \<Longrightarrow> Im z = 0"
  using rcis_cmod_Arg [of z] by (simp add: rcis_def) (metis Im_complex_of_real)

lemma Arg_neg_real: "r < 0 \<Longrightarrow> Arg (complex_of_real r) = pi"
proof -
  assume "r < 0"
  then have "sgn (complex_of_real r) = cis pi"
    by (simp add: sgn_eq complex_eq_iff)
  then show ?thesis by (rule cis_Arg_unique) simp_all
qed

lemma phase_of_negative:
  assumes "r < 0"
  shows "complex_of_real r * np_exp (- \<i> * complex_of_real (np_angle (complex_of_real r)))
         = Complex (- r) (- r * (4967757600021511 / 2 ^ 105))"
proof -
  have "np_angle (complex_of_real r) = float64 pi"
    unfolding np_angle_def using assms by (simp add: Arg_neg_real)
  then have "np_exp (- \<i> * complex_of_real (np_angle (complex_of_real r)))
      = Complex (- 1) (- (4967757600021511 / 2 ^ 105))"
    by (simp add: np_exp_def float64_cos float64_sin)
  then show ?thesis
    by (simp add: complex_eq_iff)
qed

subsection \<open>The derivative operators\<close>

lemma mat_H_kron: "mat_H (sp_kron A B) = sp_kron (mat_H A) (mat_H B)"
  by (auto simp: mat_H_def sp_kron_def fun_eq_iff)

lemma mat_neg_kron_left: "mat_neg (sp_kron A B) = sp_kron (mat_neg A) B"
  by (auto simp: mat_neg_def sp_kron_def fun_eq_iff)

lemma mat_neg_kron_right: "mat_neg (sp_kron A B) = sp_kron A (mat_neg B)"
  by (auto simp: mat_neg_def sp_kron_def fun_eq_iff)

lemma mat_H_eye: "mat_H (sp_eye m) = sp_eye m"
  by (auto simp: mat_H_def sp_eye_def fun_eq_iff)

lemma mat_H_scalar0: "mat_neg (mat_H scalar0) = scalar0"
  by (auto simp: mat_H_def mat_neg_def scalar0_def fun_eq_iff)

lemma axis_adjoint:
  assumes "1 < m"
  shows "mat_neg (mat_H (sp_diags [- 1, 1, b] [0, 1, - int m + 1] m))
         = sp_diags [1, - 1, - cnj b] [0, - 1, int m - 1] m"
  using assms by (auto simp: mat_H_def mat_neg_def sp_diags_def fun_eq_iff)

lemma matmul_diag_const:
  assumes "nrows K = m" and "\<forall>i j. \<not> (i < nrows K \<and> j < ncols K) \<longrightarrow> ent K i j = 0"
  shows "matmul (sp_diags1 (replicate m c)) K
         = \<lparr>nrows = m, ncols = ncols K, ent = (\<lambda>i j. c * ent K i j)\<rparr>"
proof -
  have "(\<Sum>k<m. (if i < m \<and> k = i then replicate m c ! i else 0) * ent K k j) = c * ent K i j"
    if "i < m" for i j
  proof -
    have "(\<Sum>k<m. (if i < m \<and> k = i then replicate m c ! i else 0) * ent K k j)
          = (\<Sum>k<m. if k = i then c * ent K i j else 0)"
      using that by (intro sum.cong) auto
    also have "\<dots> = c * ent K i j" using that by simp
    finally show ?thesis .
  qed
  then show ?thesis
    using assms by (auto simp: matmul_def sp_diags1_def fun_eq_iff)
qed

lemma Grid_init_ndim:
  assumes "Grid_init st sh sp e = (Inr g, st')"
  shows "1 \<le> length sh" and "length sh \<le> 3"
proof -
  have "\<not> 3 < length sh" "length sh \<noteq> 0"
    using assms by (auto simp: Grid_init_def Let_def split: if_splits prod.splits)
  then show "1 \<le> length sh" and "length sh \<le> 3" by (auto simp: Suc_le_eq)
qed

lemma Grid_init_fields:
  assumes "Grid_init st sh sp e = (Inr g, st')"
  shows "shape g = sh" and "ndim g = length sh" 
    and "shape3 g = sh @ replicate (3 - length sh) 1"
    and "grid_n g = prod_list sh"
    and "cell_sizes g = map (\<lambda>i. if i < length sh then replicate (sh ! i) (spacing g ! i) else [1]) [0, 1, 2]"
  using assms
  by (auto simp: Grid_init_def Let_def simp del: list.map split: if_splits prod.splits)

lemma SimGrid_init_Grid:
  assumes "SimGrid_init st sh sp e bp pml pe ya = (Inr g, st')"
  shows "Grid_init st sh sp e = (Inr (Grid.truncate g), st')"
    and "dxes g = (meshgrid_ij (map (map complex_of_real) (cell_sizes g)),
                 meshgrid_ij (map (map complex_of_real) (cell_sizes g)))"
  using assms
  by (auto simp: SimGrid_init_def Let_def Grid.extend_def Grid.truncate_def split: if_splits prod.splits sum.splits bool.splits)

lemma coord_less: "0 < sh ! ax \<Longrightarrow> coord sh ax k < sh ! ax"
  by (simp add: coord_def)

lemma meshgrid_const:
  assumes "ax < length xs" and "xs ! ax = replicate l c" and "0 < l"
  shows "dat (meshgrid_ij xs ! ax) = replicate (prod_list (map length xs)) c"
proof -
  have "map length xs ! ax = l" using assms by simp
  then have "xs ! ax ! coord (map length xs) ax k = c" for k
    using assms coord_less [of "map length xs" ax k] by simp
  then show ?thesis
    using assms(1) by (simp add: meshgrid_ij_def Let_def map_replicate_const)
qed

lemma pad3:
  assumes "1 \<le> length sh" and "length sh \<le> 3"
  obtains s0 s1 s2 where "sh @ replicate (3 - length sh) (1::nat) = [s0, s1, s2]"
proof -
  consider "length sh = 1" | "length sh = 2" | "length sh = 3" using assms by linarith
  then show ?thesis
  proof cases
    case 1 then obtain a where "sh = [a]" by (cases sh) auto
    then show ?thesis using that by (simp add: numeral_3_eq_3)
  next
    case 2 then obtain a b where "sh = [a, b]" by (cases sh; cases "tl sh") auto
    then show ?thesis using that by (simp add: numeral_3_eq_3)
  next
    case 3 then obtain a b c where "sh = [a, b, c]" by (cases sh; cases "tl sh"; cases "tl (tl sh)") auto
    then show ?thesis using that by simp
  qed
qed

lemma upt3: "[0..<3] = [0, 1, 2]"
  by (simp add: upt_rec)

lemma axis_b_f: "axis_b m b = mat_neg (mat_H (axis_f m b))"
  using axis_adjoint [of m b] by (simp add: axis_b_def axis_f_def mat_H_scalar0)

lemma axis_dims: "0 < m \<Longrightarrow> nrows (axis_f m b) = m \<and> ncols (axis_f m b) = m"
  by (auto simp: axis_f_def sp_diags_def scalar0_def)

lemma kron_dims [simp]: "nrows (sp_kron A B) = nrows A * nrows B" "ncols (sp_kron A B) = ncols A * ncols B"
  by (simp_all add: sp_kron_def)

lemma eye_dims [simp]: "nrows (sp_eye m) = m" "ncols (sp_eye m) = m"
  by (simp_all add: sp_eye_def)

lemma kron_outside: "\<not> (i < nrows (sp_kron A B) \<and> j < ncols (sp_kron A B)) \<Longrightarrow> ent (sp_kron A B) i j = 0"
  by (auto simp: sp_kron_def)

lemma scale_adjoint:
  assumes "nrows K = m" and "ncols K = m"
    and "\<forall>i j. \<not> (i < nrows K \<and> j < ncols K) \<longrightarrow> ent K i j = 0"
    and "c \<in> \<real>"
  shows "matmul (sp_diags1 (map (\<lambda>x. 1 / x) (replicate m c))) (mat_neg (mat_H K))
         = mat_neg (mat_H (matmul (sp_diags1 (map (\<lambda>x. 1 / x) (replicate m c))) K))"
proof -
  have c: "cnj (1 / c) = 1 / c"
    using assms(4) by (auto simp: Reals_cnj_iff)
  have 1: "matmul (sp_diags1 (replicate m (1 / c))) K
        = \<lparr>nrows = m, ncols = ncols K, ent = (\<lambda>i j. (1 / c) * ent K i j)\<rparr>"
    using assms by (intro matmul_diag_const) auto
  have 2: "matmul (sp_diags1 (replicate m (1 / c))) (mat_neg (mat_H K))
        = \<lparr>nrows = m, ncols = ncols (mat_neg (mat_H K)), ent = (\<lambda>i j. (1 / c) * ent (mat_neg (mat_H K)) i j)\<rparr>"
    using assms by (intro matmul_diag_const) (auto simp: mat_neg_def mat_H_def)
  show ?thesis
    using assms(1,2) c unfolding map_replicate 1 2
    by (auto simp: mat_neg_def mat_H_def fun_eq_iff)
qed



lemma truncate_sel:
  "shape (Grid.truncate g) = shape g" "ndim (Grid.truncate g) = ndim g"
  "shape3 (Grid.truncate g) = shape3 g" "grid_n (Grid.truncate g) = grid_n g"
  "cell_sizes (Grid.truncate g) = cell_sizes g" "spacing (Grid.truncate g) = spacing g"
  by (simp_all add: Grid.truncate_def)

lemma deriv_unfold:
  assumes "shape g @ replicate (3 - ndim g) 1 = [s0, s1, s2]"
  shows "deriv g back =
     (let b = bloch g @ replicate (3 - ndim g) 1;
          dx = (if back then snd (dxes g) else fst (dxes g));
          ax = (if back then axis_b else axis_f)
      in [matmul (sp_diags1 (map (\<lambda>x. 1 / x) (dat (dx ! 0))))
            (sp_kron (ax s0 (b ! 0)) (sp_eye (s1 * s2))),
          matmul (sp_diags1 (map (\<lambda>x. 1 / x) (dat (dx ! 1))))
            (sp_kron (sp_kron (sp_eye s0) (ax s1 (b ! 1))) (sp_eye s2)),
          matmul (sp_diags1 (map (\<lambda>x. 1 / x) (dat (dx ! 2))))
            (sp_kron (sp_eye (s0 * s1)) (ax s2 (b ! 2)))])"
  unfolding deriv_def assms Let_def
  by (simp add: upt3 axis_b_def axis_f_def numeral_2_eq_2)

text \<open>
  Claim C1.  For a grid built by \<open>SimGrid.__init__\<close> without PML (\<open>pml = None\<close>) and
  with at least one cell on every axis, each backward derivative operator is the negated
  conjugate transpose of the forward derivative operator of the same axis:
  \<open>db[i] = - df[i]\<^sup>H\<close> for the three axes.  The Bloch phase is arbitrary here; the
  claim's case, Bloch phase zero, is the instance \<open>bp = BlochFloat 0\<close>.
\<close>

theorem deriv_adjoint:
  assumes init: "SimGrid_init st sh sp e bp None pe ya = (Inr g, st')"
    and cells: "\<forall>s \<in> set sh. 0 < s"
  shows "db g = map (\<lambda>d. mat_neg (mat_H d)) (df g)"
proof -
  note G = SimGrid_init_Grid(1) [OF init]
  have sh: "shape g = sh" "ndim g = length sh"
    using Grid_init_fields(1,2) [OF G] unfolding truncate_sel by blast+
  obtain s0 s1 s2 where s: "sh @ replicate (3 - length sh) 1 = [s0, s1, s2]"
    using pad3 [OF Grid_init_ndim [OF G]] by blast
  have "\<forall>x \<in> set (sh @ replicate (3 - length sh) 1). 0 < x"
    using cells by auto
  then have pos: "0 < s0" "0 < s1" "0 < s2"
    unfolding s by simp_all
  define c where "c ax = complex_of_real (if ax < length sh then spacing g ! ax else 1)" for ax
  define M where "M = meshgrid_ij (map (map complex_of_real) (cell_sizes g))"
  have nth: "(if i < length sh then sh ! i else 1) = [s0, s1, s2] ! i" if "i < 3" for i
    using that Grid_init_ndim [OF G] unfolding s [symmetric] by (auto simp: nth_append)
  have cs: "cell_sizes g = map (\<lambda>i. if i < length sh then replicate (sh ! i) (spacing g ! i) else [1]) [0, 1, 2]"
    using Grid_init_fields(5) [OF G] unfolding truncate_sel .
  have cellsC: "map (map complex_of_real) (cell_sizes g)
      = [replicate s0 (c 0), replicate s1 (c 1), replicate s2 (c 2)]"
    unfolding cs c_def using nth [of 0] nth [of 1] nth [of 2]
    by (auto split: if_splits)
  have dx: "dat (M ! 0) = replicate (s0 * (s1 * s2)) (c 0)"
     "dat (M ! 1) = replicate (s0 * (s1 * s2)) (c 1)"
     "dat (M ! 2) = replicate (s0 * (s1 * s2)) (c 2)"
    unfolding M_def cellsC
    using meshgrid_const [of 0 "[replicate s0 (c 0), replicate s1 (c 1), replicate s2 (c 2)]" s0 "c 0"]
      meshgrid_const [of 1 "[replicate s0 (c 0), replicate s1 (c 1), replicate s2 (c 2)]" s1 "c 1"]
      meshgrid_const [of 2 "[replicate s0 (c 0), replicate s1 (c 1), replicate s2 (c 2)]" s2 "c 2"]
      pos by simp_all
  have dxes: "dxes g = (M, M)"
    using SimGrid_init_Grid(2) [OF init] by (simp add: M_def)
  have creal: "c ax \<in> \<real>" for ax
    by (simp add: c_def)
  have s': "shape g @ replicate (3 - ndim g) 1 = [s0, s1, s2]"
    using s sh by simp
  let ?b = "bloch g @ replicate (3 - ndim g) 1"
  let ?N = "s0 * (s1 * s2)"
  let ?S = "\<lambda>ax K. matmul (sp_diags1 (map (\<lambda>x. 1 / x) (replicate ?N (c ax)))) K"
  let ?K0 = "\<lambda>a. sp_kron (a s0 (?b ! 0)) (sp_eye (s1 * s2))"
  let ?K1 = "\<lambda>a. sp_kron (sp_kron (sp_eye s0) (a s1 (?b ! 1))) (sp_eye s2)"
  let ?K2 = "\<lambda>a. sp_kron (sp_eye (s0 * s1)) (a s2 (?b ! 2))"
  have b0: "?K0 axis_b = mat_neg (mat_H (?K0 axis_f))"
    by (simp add: axis_b_f mat_H_kron mat_H_eye mat_neg_kron_left)
  have b1: "?K1 axis_b = mat_neg (mat_H (?K1 axis_f))"
  proof -
    have "mat_neg (mat_H (?K1 axis_f))
          = mat_neg (sp_kron (sp_kron (sp_eye s0) (mat_H (axis_f s1 (?b ! 1)))) (sp_eye s2))"
      by (simp add: mat_H_kron mat_H_eye)
    also have "\<dots> = sp_kron (mat_neg (sp_kron (sp_eye s0) (mat_H (axis_f s1 (?b ! 1))))) (sp_eye s2)"
      by (rule mat_neg_kron_left)
    also have "\<dots> = sp_kron (sp_kron (sp_eye s0) (mat_neg (mat_H (axis_f s1 (?b ! 1))))) (sp_eye s2)"
      by (simp only: mat_neg_kron_right)
    finally show ?thesis by (simp only: axis_b_f)
  qed
  have b2: "?K2 axis_b = mat_neg (mat_H (?K2 axis_f))"
    by (simp add: axis_b_f mat_H_kron mat_H_eye mat_neg_kron_right)
  have k0: "?S 0 (?K0 axis_b) = mat_neg (mat_H (?S 0 (?K0 axis_f)))"
    unfolding b0 using pos creal
    by (intro scale_adjoint) (simp_all add: axis_dims kron_outside)
  have k1: "?S 1 (?K1 axis_b) = mat_neg (mat_H (?S 1 (?K1 axis_f)))"
    unfolding b1 using pos creal
    by (intro scale_adjoint) (simp_all add: axis_dims kron_outside)
  have k2: "?S 2 (?K2 axis_b) = mat_neg (mat_H (?S 2 (?K2 axis_f)))"
    unfolding b2 using pos creal
    by (intro scale_adjoint) (simp_all add: axis_dims kron_outside)
  show ?thesis
    unfolding db_def df_def deriv_unfold [OF s'] Let_def dxes
    using k0 k1 k2 dx by simp
qed

theorem deriv_adjoint_witness:
  "\<exists>g st'. SimGrid_init init_state [2] (SpacingFloat (1 / 2)) (EpsFloat 1) (BlochFloat 0) None 1 1
               = (Inr g, st')
     \<and> db g = map (\<lambda>d. mat_neg (mat_H d)) (df g)"
proof -
  obtain g st' where h: "SimGrid_init init_state [2] (SpacingFloat (1 / 2)) (EpsFloat 1)
                           (BlochFloat 0) None 1 1 = (Inr g, st')"
    by (simp add: SimGrid_init_def Grid_init_def init_state_def alloc_def new_oid_def Let_def)
  have "\<forall>s \<in> set [2::nat]. 0 < s" by simp
  from deriv_adjoint [OF h this] h show ?thesis by blast
qed

subsection \<open>The dimension check of \<open>wgm\<close>\<close>

lemma np_stack_error: "np_stack as = Inl e \<Longrightarrow> \<exists>m. e = Raise ValueError m"
  by (auto simp: np_stack_def split: list.splits if_splits)

lemma np_roll_error: "np_roll a s ax = Inl e \<Longrightarrow> \<exists>m. e = Raise AxisError m"
  by (auto simp: np_roll_def Let_def split: if_splits)

lemma yee_avg_error:
  assumes "yee_avg p s = Inl e"
  shows "\<exists>c m. e = Raise c m \<and> c \<noteq> AttributeError"
  using assms
  by (auto simp: yee_avg_def Let_def split: if_splits sum.splits dest!: np_roll_error np_stack_error)

lemma eps_t_error:
  assumes "fst (eps_t st g) = Inl e"
  shows "\<exists>c m. e = Raise c m \<and> c \<noteq> AttributeError"
  using assms
  by (auto simp: eps_t_def eps_t_compute_def Let_def split: option.splits sum.splits if_splits
      dest!: yee_avg_error np_stack_error)

text \<open>
  Claim C6.  On a grid of dimension three, reading \<open>wgm\<close> raises the
  \<open>AttributeError\<close> of the dimension check; on a grid of dimension one or two it does
  not raise that exception.
\<close>

theorem wgm_dimension_check:
  "(ndim g = 3 \<longrightarrow> fst (wgm st g) = Inl (Raise AttributeError wgm_msg))
   \<and> (ndim g = 1 \<or> ndim g = 2 \<longrightarrow> fst (wgm st g) \<noteq> Inl (Raise AttributeError wgm_msg))"
proof (intro conjI impI)
  assume "ndim g = 3"
  then show "fst (wgm st g) = Inl (Raise AttributeError wgm_msg)"
    by (simp add: wgm_def)
next
  assume d: "ndim g = 1 \<or> ndim g = 2"
  show "fst (wgm st g) \<noteq> Inl (Raise AttributeError wgm_msg)"
  proof
    assume a: "fst (wgm st g) = Inl (Raise AttributeError wgm_msg)"
    obtain r1 st1 where e1: "eps_t st g = (r1, st1)" by (cases "eps_t st g")
    obtain r2 st2 where e2: "eps_t st1 g = (r2, st2)" by (cases "eps_t st1 g")
    from a d e1 e2 have "r1 = Inl (Raise AttributeError wgm_msg) \<or> r2 = Inl (Raise AttributeError wgm_msg)"
      by (auto simp: wgm_def Let_def split: sum.splits if_splits)
    then show False
      using eps_t_error [of st g] eps_t_error [of st1 g] e1 e2 by auto
  qed
qed

lemma FDFD_of_sel: "ndim (FDFD_of sg wl) = ndim sg" "oid (FDFD_of sg wl) = oid sg" "eps (FDFD_of sg wl) = eps sg"
  "dtype (FDFD_of sg wl) = dtype sg" "wavelength (FDFD_of sg wl) = wl" "grid_n (FDFD_of sg wl) = grid_n sg"
  by (simp_all add: FDFD_of_def SimGrid.extend_def)


theorem wgm_dimension_check_witness:
  "\<exists>g3 s3 g1 s1.
     SimGrid_init init_state [2, 2, 2] (SpacingFloat 1) (EpsFloat 1) (BlochFloat 0) None 1 1 = (Inr g3, s3)
     \<and> SimGrid_init init_state [2] (SpacingFloat 1) (EpsFloat 1) (BlochFloat 0) None 1 1 = (Inr g1, s1)
     \<and> fst (wgm s3 (FDFD_of g3 (31 / 20))) = Inl (Raise AttributeError wgm_msg)
     \<and> fst (wgm s1 (FDFD_of g1 (31 / 20))) \<noteq> Inl (Raise AttributeError wgm_msg)"
proof -
  obtain g3 s3 where h3: "SimGrid_init init_state [2, 2, 2] (SpacingFloat 1) (EpsFloat 1) (BlochFloat 0) None 1 1 = (Inr g3, s3)"
    and n3: "ndim g3 = 3"
    by (simp add: SimGrid_init_def Grid_init_def init_state_def alloc_def new_oid_def Let_def Grid.extend_def)
  obtain g1 s1 where h1: "SimGrid_init init_state [2] (SpacingFloat 1) (EpsFloat 1) (BlochFloat 0) None 1 1 = (Inr g1, s1)"
    and n1: "ndim g1 = 1"
    by (simp add: SimGrid_init_def Grid_init_def init_state_def alloc_def new_oid_def Let_def Grid.extend_def)
  have "ndim (FDFD_of g3 (31 / 20)) = 3" "ndim (FDFD_of g1 (31 / 20)) = 1 \<or> ndim (FDFD_of g1 (31 / 20)) = 2"
    using n3 n1 by (simp_all add: FDFD_of_sel)
  with wgm_dimension_check [of "FDFD_of g3 (31 / 20)" s3] wgm_dimension_check [of "FDFD_of g1 (31 / 20)" s1] h3 h1
  show ?thesis by blast
qed


subsection \<open>The PML check of \<open>SimGrid.__init__\<close>\<close>

lemma any_ge_half_array:
  assumes "length ts = length sh"
  shows "any_ge_half (PArray ts) sh = Inr (\<exists>ax < length sh. ts ! ax \<ge> int (sh ! ax) div 2)"
proof -
  have "(\<exists>x \<in> set (zip ts (map (\<lambda>s. int s div 2) sh)). case x of (t, h) \<Rightarrow> t \<ge> h)
        \<longleftrightarrow> (\<exists>ax < length sh. ts ! ax \<ge> int (sh ! ax) div 2)"
    using assms by (fastforce simp: set_zip)
  then show ?thesis
    using assms by (simp add: any_ge_half_def Let_def list_ex_iff)
qed

lemma any_le3_array: "any_le3 (PArray ts) = Inr (\<exists>ax < length ts. ts ! ax \<le> 3)"
  by (simp add: any_le3_def list_ex_iff Bex_def in_set_conv_nth) blast

lemma case_bool_or: "(case P of True \<Rightarrow> Inr True | False \<Rightarrow> Inr Q) = Inr (P \<or> Q)"
  by (cases P) simp_all

lemma SimGrid_init_pml_check:
  assumes g: "Grid_init st sh sp e = (Inr g0, st1)"
    and p: "pml = Some (PInt t) \<and> ts = replicate (length sh) t \<or> pml = Some (PArray ts)"
    and len: "length ts = length sh"
  shows "fst (SimGrid_init st sh sp e bp pml pe ya) = Inl (Raise AttributeError pml_msg)
         \<longleftrightarrow> (\<exists>ax < length sh. ts ! ax \<le> 3 \<or> ts ! ax \<ge> int (sh ! ax) div 2)"
proof -
  have sh: "shape g0 = sh" "ndim g0 = length sh"
    using Grid_init_fields(1,2) [OF g] by simp_all
  define bad where "bad \<longleftrightarrow> (\<exists>ax < length sh. ts ! ax \<le> 3 \<or> ts ! ax \<ge> int (sh ! ax) div 2)"
  have chk: "(case any_le3 (PArray ts) of Inl e \<Rightarrow> Inl e | Inr True \<Rightarrow> Inr True
              | Inr False \<Rightarrow> any_ge_half (PArray ts) (shape g0)) = Inr bad"
    unfolding sh any_le3_array any_ge_half_array [OF len] bad_def sum.case case_bool_or len
    by auto
  have "fst (SimGrid_init st sh sp e bp pml pe ya) = Inl (Raise AttributeError pml_msg) \<longleftrightarrow> bad"
    using p
  proof (elim disjE conjE)
    assume pm: "pml = Some (PInt t)" and ts: "ts = replicate (length sh) t"
    show ?thesis
      unfolding SimGrid_init_def g Let_def pm
      by (cases bad) (simp_all add: ts [symmetric] chk sh len pml_len_def pml_msg_def)
  next
    assume pm: "pml = Some (PArray ts)"
    show ?thesis
      unfolding SimGrid_init_def g Let_def pm
      by (cases bad) (simp_all add: chk sh len pml_len_def pml_msg_def)
  qed
  then show ?thesis by (simp add: bad_def)
qed



text \<open>
  A tuple \<open>pml\<close> never passes the check: the comparison of the tuple with \<open>3\<close> raises
  \<open>TypeError\<close>.
\<close>

lemma SimGrid_init_pml_tuple:
  assumes "Grid_init st sh sp e = (Inr g0, st1)"
  shows "\<exists>m. fst (SimGrid_init st sh sp e bp (Some (PTuple ts)) pe ya) = Inl (Raise TypeError m)"
  by (simp add: SimGrid_init_def assms Let_def any_le3_def)

text \<open>
  Claim C7, as stated, fails: with nine cells and a PML of four cells the bound
  \<open>3 < t < shape[axis] / 2\<close> holds (\<open>4 < 4.5\<close>), and the construction raises the
  PML \<open>AttributeError\<close>, because the source compares with \<open>shape // 2\<close>.
\<close>

theorem pml_bound_counterexample:
  "fst (SimGrid_init init_state [9] (SpacingFloat 1) (EpsFloat 1) (BlochFloat 0) (Some (PInt 4)) 1 1)
     = Inl (Raise AttributeError pml_msg) \<and> (3::real) < 4 \<and> (4::real) < 9 / 2"
  by (simp add: SimGrid_init_def Grid_init_def init_state_def alloc_def new_oid_def Let_def
      any_le3_def any_ge_half_def)

text \<open>
  Claim C7, amended.  When the \<open>Grid\<close> part of the construction succeeds and \<open>pml\<close> is an
  integer \<open>t\<close> (the thickness \<open>ts\<close> is then \<open>t\<close> on every axis) or an integer array
  \<open>ts\<close> with one thickness per axis, the construction raises the PML \<open>AttributeError\<close>
  if and only if some axis fails \<open>3 < ts[axis] < shape[axis] // 2\<close>, with the integer
  (floor) division of the source.  So the construction passes the PML check whenever every
  axis satisfies that bound.
\<close>

theorem pml_bound_floor:
  assumes "Grid_init st sh sp e = (Inr g0, st1)"
    and "pml = Some (PInt t) \<and> ts = replicate (length sh) t \<or> pml = Some (PArray ts)"
    and "length ts = length sh"
  shows "fst (SimGrid_init st sh sp e bp pml pe ya) = Inl (Raise AttributeError pml_msg)
         \<longleftrightarrow> (\<exists>ax < length sh. \<not> (3 < ts ! ax \<and> ts ! ax < int (sh ! ax) div 2))"
  unfolding SimGrid_init_pml_check [OF assms] by (simp add: not_less)

theorem pml_bound_floor_witness:
  "fst (SimGrid_init init_state [10] (SpacingFloat 1) (EpsFloat 1) (BlochFloat 0) (Some (PInt 4)) 1 1)
     \<noteq> Inl (Raise AttributeError pml_msg)"
proof -
  obtain g0 st1 where g: "Grid_init init_state [10] (SpacingFloat 1) (EpsFloat 1) = (Inr g0, st1)"
    by (simp add: Grid_init_def init_state_def alloc_def new_oid_def Let_def)
  have "Some (PInt 4) = Some (PInt 4) \<and> [4] = replicate (length [10::nat]) (4::int) \<or> Some (PInt 4) = Some (PArray [4])"
    and "length [4::int] = length [10::nat]"
    by simp_all
  from pml_bound_floor [OF g this, of "BlochFloat 0" 1 1] show ?thesis by simp
qed

subsection \<open>The size check of \<open>FDFD.solve\<close>\<close>

lemma np_stack_msg:
  "np_stack as = Inl e \<Longrightarrow> e = Raise ValueError ''need at least one array to stack''
     \<or> e = Raise ValueError ''all input arrays must have the same shape''"
  by (auto simp: np_stack_def split: list.splits if_splits)

lemma np_stack_not_src: "np_stack as \<noteq> Inl (Raise ValueError src_msg)"
  using np_stack_msg [of as "Raise ValueError src_msg"] by (auto simp: src_msg_def)

lemma yee_avg_not_src: "yee_avg p s \<noteq> Inl (Raise ValueError src_msg)"
  by (auto simp: yee_avg_def Let_def np_stack_not_src np_roll_def split: if_splits sum.splits)

lemma eps_t_not_src: "fst (eps_t st g) \<noteq> Inl (Raise ValueError src_msg)"
  by (auto simp: eps_t_def eps_t_compute_def Let_def yee_avg_not_src np_stack_not_src
      split: option.splits sum.splits)

lemma mat_not_src: "fst (mat st g) \<noteq> Inl (Raise ValueError src_msg)"
  using eps_t_not_src [of st g]
  by (auto simp: mat_def split: prod.splits sum.splits)

lemma matz_not_src: "fst (matz st g) \<noteq> Inl (Raise ValueError src_msg)"
  using eps_t_not_src [of st g]
  by (auto simp: matz_def split: prod.splits sum.splits)

lemma sequence_error: "sequence rs = Inl e \<Longrightarrow> Inl e \<in> set rs"
  by (induction rs rule: sequence.induct) (auto split: sum.splits)

lemma reshape_not_src: "reshape g v \<noteq> Inl (Raise ValueError src_msg)"
proof
  assume a: "reshape g v = Inl (Raise ValueError src_msg)"
  show False
  proof (cases "length (shp v) = 1")
    case False
    with a show False by (simp add: reshape_def)
  next
    case True
    show False
    proof (cases "np_split3 v")
      case (Inl e)
      with a True show False
        by (auto simp: reshape_def np_split3_def Let_def src_msg_def split: if_splits)
    next
      case (Inr parts)
      show False
      proof (cases "sequence (map (\<lambda>split_v. np_reshape split_v (shape3 g)) parts)")
        case (Inl e)
        from sequence_error [OF this] have "e = Raise ValueError ''cannot reshape array''"
          by (auto simp: np_reshape_def split: if_splits)
        with a True Inr Inl show False by (simp add: reshape_def src_msg_def)
      next
        case (Inr rs)
        with a True \<open>np_split3 v = Inr parts\<close> show False
          by (simp add: reshape_def np_stack_not_src)
      qed
    qed
  qed
qed

lemma external_not_raise: "external r \<noteq> Inl (Raise c m)"
  by (simp add: external_def split: sum.splits)

text \<open>
  Claim C5.  \<open>FDFD.solve\<close> raises its \<open>ValueError\<close> about the size of the source if
  and only if the size of \<open>src\<close> is neither \<open>n\<close> nor \<open>3 n\<close>; in that case it returns
  no field.
\<close>

theorem solve_shape_mismatch:
  "(fst (solve st g C src solver_fn reshaped iterative) = Inl (Raise ValueError src_msg)
      \<longleftrightarrow> nd_size src \<noteq> grid_n g \<and> nd_size src \<noteq> 3 * grid_n g)
   \<and> (nd_size src \<noteq> grid_n g \<and> nd_size src \<noteq> 3 * grid_n g
        \<longrightarrow> (\<forall>out. fst (solve st g C src solver_fn reshaped iterative) \<noteq> Inr out))"
proof -
  let ?r = "fst (solve st g C src solver_fn reshaped iterative)"
  have size: "nd_size (vec (map (\<lambda>x. complex_of_real (k0 g) * x) (dat (np_flatten src)))) = nd_size src"
    by (simp add: nd_size_def vec_def np_flatten_def)
  have bad: "?r = Inl (Raise ValueError src_msg)"
    if "nd_size src \<noteq> grid_n g" "nd_size src \<noteq> 3 * grid_n g"
    using that by (simp add: solve_def Let_def size mult.commute [of "grid_n g" 3])
  have good3: "?r \<noteq> Inl (Raise ValueError src_msg)" if "nd_size src = 3 * grid_n g"
  proof -
    obtain r1 st1 where m: "mat st g = (r1, st1)" by (cases "mat st g")
    have "r1 \<noteq> Inl (Raise ValueError src_msg)" using mat_not_src [of st g] m by simp
    then show ?thesis
      using that
      by (auto simp: solve_def Let_def size m mult.commute [of "grid_n g" 3] external_not_raise reshape_not_src
          split: sum.splits prod.splits if_splits)
  qed
  have good1: "?r \<noteq> Inl (Raise ValueError src_msg)" if "nd_size src = grid_n g"
  proof -
    obtain r1 st1 where m: "matz st g = (r1, st1)" by (cases "matz st g")
    obtain r3 st3 where m3: "mat st g = (r3, st3)" by (cases "mat st g")
    have "r1 \<noteq> Inl (Raise ValueError src_msg)" using matz_not_src [of st g] m by simp
    moreover have "r3 \<noteq> Inl (Raise ValueError src_msg)" using mat_not_src [of st g] m3 by simp
    ultimately show ?thesis
      using that
      by (auto simp: solve_def Let_def size m m3 mult.commute [of "grid_n g" 3] external_not_raise reshape_not_src
          split: sum.splits prod.splits if_splits)
  qed
  show ?thesis using bad good3 good1 by auto
qed

theorem solve_shape_mismatch_witness:
  "\<exists>sg s1.
     SimGrid_init init_state [2] (SpacingFloat 1) (EpsFloat 1) (BlochFloat 0) None 1 1 = (Inr sg, s1)
     \<and> fst (solve s1 (FDFD_of sg (31 / 20)) no_collab \<lparr>shp = [5], dat = [1, 0, 0, 0, 0]\<rparr>
              None True (- 1)) = Inl (Raise ValueError src_msg)"
proof -
  obtain sg s1 where h: "SimGrid_init init_state [2] (SpacingFloat 1) (EpsFloat 1) (BlochFloat 0)
                           None 1 1 = (Inr sg, s1)"
    and n: "grid_n sg = 2"
    by (simp add: SimGrid_init_def Grid_init_def init_state_def alloc_def new_oid_def Let_def
        Grid.extend_def)
  let ?src = "\<lparr>shp = [5], dat = [1, 0, 0, 0, 0 :: complex]\<rparr>"
  have "nd_size ?src \<noteq> grid_n (FDFD_of sg (31 / 20))
        \<and> nd_size ?src \<noteq> 3 * grid_n (FDFD_of sg (31 / 20))"
    using n by (simp add: nd_size_def FDFD_of_sel)
  with solve_shape_mismatch [of s1 "FDFD_of sg (31 / 20)" no_collab ?src None True "- 1"] h
  show ?thesis by blast
qed

subsection \<open>The mode solver\<close>

text \<open>
  Over the exact complex numbers the phase factor of the complex case would cancel the
  phase of the entry it is taken from.
\<close>

lemma phase_fix: "z * exp (- \<i> * complex_of_real (Arg z)) = complex_of_real (cmod z)"
proof -
  have "exp (- \<i> * complex_of_real (Arg z)) = cis (- Arg z)"
    by (simp add: cis_conv_exp)
  moreover have "z = complex_of_real (cmod z) * cis (Arg z)"
    using rcis_cmod_Arg [of z] by (simp add: rcis_def)
  ultimately have "z * exp (- \<i> * complex_of_real (Arg z))
      = complex_of_real (cmod z) * (cis (Arg z) * cis (- Arg z))"
    by (metis mult.assoc)
  then show ?thesis by (simp add: cis_mult)
qed

lemma sign_fix: "np_sign (z * np_sign z) = 0 \<or> np_sign (z * np_sign z) = 1"
  by (auto simp: np_sign_def sgn_if)

lemma np_argsort_set: "np_argsort ks = Inr inds \<Longrightarrow> set inds = {..<length ks}"
  by (auto simp: np_argsort_def split: if_splits)

lemma np_argsort_length: "np_argsort ks = Inr inds \<Longrightarrow> length inds = length ks"
  by (auto simp: np_argsort_def split: if_splits)

text \<open>
  The first entry of a returned mode is the first entry of one column of \<open>h\<close> times the
  factor of that column.
\<close>

lemma wgm_modes_entry:
  assumes "wgm_modes g vals vecs = Inr (bs, ms)" and "ncols vecs = length vals"
    and "i < nrows ms" and "0 < ncols ms"
  shows "\<exists>z. ent ms i 0
           = z * (if dtype g = Complex128 then np_exp (- \<i> * complex_of_real (np_angle z))
                  else np_sign z)"
proof -
  obtain inds0 where srt: "np_argsort (map (\<lambda>v. np_sqrt_key (Re v)) vals) = Inr inds0"
    using assms(1)
    by (cases "np_argsort (map (\<lambda>v. np_sqrt_key (Re v)) vals)") (simp_all add: wgm_modes_def)
  define inds where "inds = rev inds0"
  define h where "h = (if 1 < ndim g
               then sp_vstack2 vecs
                      (row_div (matmul (sp_hstack2 (df g ! 0) (df g ! 1)) vecs)
                         (map (\<lambda>v. \<i> * csqrt v) vals))
               else vecs)"
  define factor where "factor = (if dtype g = Complex128
                    then map (\<lambda>j. np_exp (- \<i> * complex_of_real (np_angle (ent h 0 j))))
                           [0..<ncols h]
                    else map (\<lambda>j. np_sign (ent h 0 j)) [0..<ncols h])"
  have "wgm_modes g vals vecs
        = Inr (map (\<lambda>i. csqrt (vals ! i)) inds, mat_T (select_cols (row_mul h factor) inds))"
    by (simp only: wgm_modes_def Let_def srt sum.case inds_def h_def factor_def)
  then have ms: "ms = mat_T (select_cols (row_mul h factor) inds)"
    using assms(1) by simp
  have nc: "ncols h = length vals"
    using assms(2) by (simp add: h_def sp_vstack2_def)
  have "i < length inds"
    using assms(3) by (simp add: ms mat_T_def select_cols_def)
  then have "inds ! i \<in> set inds" by simp
  then have j: "inds ! i < ncols h"
    using np_argsort_set [OF srt] by (simp add: inds_def nc)
  have "ent ms i 0 = ent h 0 (inds ! i) * factor ! (inds ! i)"
    by (simp add: ms mat_T_def select_cols_def row_mul_def)
  moreover have "factor ! (inds ! i)
      = (if dtype g = Complex128
         then np_exp (- \<i> * complex_of_real (np_angle (ent h 0 (inds ! i))))
         else np_sign (ent h 0 (inds ! i)))"
    using j by (simp add: factor_def)
  ultimately show ?thesis by metis
qed

lemma wgm_solve_Inr:
  assumes "wgm_solve st g C k bg tol = (Inr (bs, ms), st')" and "eigen_contract C"
  shows "\<exists>vals vecs. wgm_modes g vals vecs = Inr (bs, ms) \<and> ncols vecs = length vals"
  using assms
  by (auto simp: wgm_solve_def Let_def external_def eigen_contract_def
      split: beta_guess.splits sum.splits prod.splits if_splits) blast+

lemma np_roll_ok: "ax < length (shp a) \<Longrightarrow> \<exists>r. np_roll a s ax = Inr r \<and> shp r = shp a"
  by (simp add: np_roll_def Let_def)

lemma yee_avg_1d_ok:
  assumes "length (shp p) = 1"
  shows "\<exists>v. yee_avg p s = Inr v"
proof -
  obtain r1 where r1: "np_roll p s 0 = Inr r1" using np_roll_ok [of 0 p s] assms by auto
  obtain r2 where r2: "np_roll p (- s) 0 = Inr r2" using np_roll_ok [of 0 p "- s"] assms by auto
  show ?thesis
    using assms by (simp add: yee_avg_def r1 r2 Let_def np_stack_def)
qed

lemma eps_t_cached:
  assumes "eps_t st g = (Inr v, st1)"
  shows "map_of (eps_t_cache st1) (oid g) = Some v"
  using assms
  by (auto simp: eps_t_def split: option.splits sum.splits)

lemma eps_t_hit:
  assumes "map_of (eps_t_cache st) (oid g) = Some v"
  shows "fst (eps_t st g) = Inr v"
  using assms by (simp add: eps_t_def)

lemma wgm_ok:
  assumes "ndim g \<le> 2" and "eps_t st g = (Inr v, st1)"
  shows "\<exists>A st2. wgm st g = (Inr A, st2)"
proof -
  obtain r2 st2 where e2: "eps_t st1 g = (r2, st2)" by (cases "eps_t st1 g")
  have "r2 = Inr v"
    using eps_t_hit [OF eps_t_cached [OF assms(2)]] e2 by simp
  then show ?thesis
    using assms e2 by (auto simp: wgm_def Let_def)
qed

lemma upt4: "[0..<4] = [0, 1, 2, 3]"
  by (simp add: upt_rec)

lemma roll4: "np_roll \<lparr>shp = [4], dat = [a, b, c, d]\<rparr> 1 0 = Inr \<lparr>shp = [4], dat = [d, a, b, c]\<rparr>"
  "np_roll \<lparr>shp = [4], dat = [a, b, c, d]\<rparr> (- 1) 0 = Inr \<lparr>shp = [4], dat = [b, c, d, a]\<rparr>"
  by (simp_all add: np_roll_def Let_def coord_def upt4)

lemma yee4: "yee_avg \<lparr>shp = [4], dat = [a, a, a, a]\<rparr> 1
   = Inr \<lparr>shp = [3, 4], dat = [a, a, a, a, a, a, a, a, a, a, a, a]\<rparr>"
  by (simp add: yee_avg_def roll4 Let_def nd_add_def nd_div_def np_stack_def)

lemma ex_argsort: "np_argsort [np_sqrt_key 1, np_sqrt_key (- 1)] = Inr [0, 1]"
  by (simp add: np_argsort_def np_sqrt_key_def upt_rec)

lemma ex4:
  obtains sg s1 where
    "SimGrid_init init_state [4] (SpacingFloat 1) (EpsFloat 1) (BlochFloat 0) None 1 1 = (Inr sg, s1)"
    "ndim sg = 1" "dtype sg = Float64" "oid sg = 0" "eps sg = 0" "yee_avg_n sg = 1"
    "heap s1 0 = \<lparr>shp = [4], dat = [1, 1, 1, 1]\<rparr>" "eps_t_cache s1 = []" "next_addr s1 = 1"
    "last (spacing sg) = 1" "shape sg = [4]" "bloch sg = [1]"
    "dxes sg = (meshgrid_ij [[1, 1, 1, 1], [1], [1]], meshgrid_ij [[1, 1, 1, 1], [1], [1]])"
    "xp sg = Numpy"
  by (simp add: SimGrid_init_def Grid_init_def init_state_def alloc_def new_oid_def Let_def
      Grid.extend_def numeral_eq_Suc)

text \<open>
  The same grid with the Bloch phase given per axis, \<open>bloch_phase = (0.0,)\<close>: the
  comparison \<open>bloch_phase == 0\<close> is false for a tuple, so the dtype is complex.
\<close>

lemma ex4c:
  obtains sg s1 where
    "SimGrid_init init_state [4] (SpacingFloat 1) (EpsFloat 1) (BlochSeq [0]) None 1 1 = (Inr sg, s1)"
    "ndim sg = 1" "dtype sg = Complex128" "oid sg = 0" "eps sg = 0" "yee_avg_n sg = 1"
    "heap s1 0 = \<lparr>shp = [4], dat = [1, 1, 1, 1]\<rparr>" "eps_t_cache s1 = []"
    "shape sg = [4]" "bloch sg = [1]"
    "dxes sg = (meshgrid_ij [[1, 1, 1, 1], [1], [1]], meshgrid_ij [[1, 1, 1, 1], [1], [1]])"
  by (simp add: SimGrid_init_def Grid_init_def init_state_def alloc_def new_oid_def Let_def
      Grid.extend_def numeral_eq_Suc)

lemma sum4: "(\<Sum>k<4. f k) = f 0 + f 1 + f 2 + f (3::nat)"
  by (simp add: numeral_eq_Suc lessThan_Suc add_ac)

lemma ex_dx: "dat (meshgrid_ij [[1, 1, 1, 1], [1], [1::complex]] ! 0) = [1, 1, 1, 1]"
  using meshgrid_const [of 0 "[[1, 1, 1, 1], [1], [1::complex]]" 4 1]
  by (simp add: numeral_eq_Suc)

lemma ex_deriv:
  assumes "ndim g = 1" "shape g = [4]" "bloch g = [1]"
    "dxes g = (meshgrid_ij [[1, 1, 1, 1], [1], [1]], meshgrid_ij [[1, 1, 1, 1], [1], [1]])"
  shows "deriv g b ! 0 = matmul (sp_diags1 [1, 1, 1, 1])
            (sp_kron ((if b then axis_b else axis_f) 4 1) (sp_eye 1))"
proof -
  have "replicate 2 (1::nat) = [1, 1]" by (simp add: numeral_2_eq_2)
  then have "shape g @ replicate (3 - ndim g) 1 = [4, 1, 1]"
    using assms by simp
  from deriv_unfold [OF this, of b] show ?thesis
    using assms by (simp add: Let_def ex_dx)
qed

lemma kron_eye1: "i < nrows A \<Longrightarrow> j < ncols A \<Longrightarrow> ent (sp_kron A (sp_eye 1)) i j = ent A i j"
  by (simp add: sp_kron_def sp_eye_def)

lemma ex_deriv_ent:
  assumes "ndim g = 1" "shape g = [4]" "bloch g = [1]"
    "dxes g = (meshgrid_ij [[1, 1, 1, 1], [1], [1]], meshgrid_ij [[1, 1, 1, 1], [1], [1]])"
    and "i < 4" "j < 4"
  shows "ent (deriv g b ! 0) i j = ent ((if b then axis_b else axis_f) 4 1) i j"
proof -
  let ?K = "sp_kron ((if b then axis_b else axis_f) 4 1) (sp_eye 1)"
  have d: "nrows ?K = 4" "ncols ?K = 4"
    by (simp_all add: axis_b_def axis_f_def sp_diags_def)
  have "[1, 1, 1, 1] = replicate 4 (1::complex)" by (simp add: numeral_eq_Suc)
  then have "matmul (sp_diags1 [1, 1, 1, 1]) ?K
      = \<lparr>nrows = 4, ncols = ncols ?K, ent = (\<lambda>i j. 1 * ent ?K i j)\<rparr>"
    using matmul_diag_const [of ?K 4 1] d kron_outside [of _ "(if b then axis_b else axis_f) 4 1" "sp_eye 1"]
    by simp
  then have "ent (deriv g b ! 0) i j = ent ?K i j"
    unfolding ex_deriv [OF assms(1-4)] by simp
  also have "\<dots> = ent ((if b then axis_b else axis_f) 4 1) i j"
    using assms(5,6) by (intro kron_eye1) (simp_all add: axis_b_def axis_f_def sp_diags_def)
  finally show ?thesis .
qed

lemma axis4_ent:
  assumes "i < 4" "j < 4"
  shows "ent (axis_f 4 1) i j = (if j = i then - 1 else if j = (i + 1) mod 4 then 1 else 0)"
    and "ent (axis_b 4 1) i j = (if j = i then 1 else if i = (j + 1) mod 4 then - 1 else 0)"
proof -
  have "ent (axis_f 4 1) i j = (if int j - int i = 0 then - 1 else 0)
      + ((if int j - int i = 1 then 1 else 0) + (if int j - int i = - 3 then 1 else 0))"
    using assms by (simp add: axis_f_def sp_diags_def)
  also have "\<dots> = (if j = i then - 1 else if j = (i + 1) mod 4 then 1 else 0)"
    using assms by (auto simp: mod_Suc split: if_splits)
  finally show "ent (axis_f 4 1) i j = (if j = i then - 1 else if j = (i + 1) mod 4 then 1 else 0)" .
  have "ent (axis_b 4 1) i j = (if int j - int i = 0 then 1 else 0)
      + ((if int j - int i = - 1 then - 1 else 0) + (if int j - int i = 3 then - 1 else 0))"
    using assms by (simp add: axis_b_def sp_diags_def)
  also have "\<dots> = (if j = i then 1 else if i = (j + 1) mod 4 then - 1 else 0)"
    using assms by (auto simp: mod_Suc split: if_splits)
  finally show "ent (axis_b 4 1) i j = (if j = i then 1 else if i = (j + 1) mod 4 then - 1 else 0)" .
qed

lemma upt2: "[0..<2] = [0, 1]"
  by (simp add: upt_rec)

lemma subarrays_ones:
  "subarrays \<lparr>shp = [3, 4], dat = [a, a, a, a, a, a, a, a, a, a, a, a]\<rparr> ! 0 = \<lparr>shp = [4], dat = [a, a, a, a]\<rparr>"
  by (simp add: subarrays_def Let_def upt3)

lemma ex_k0: "k0 (FDFD_of sg (2 * pi)) = 1"
  by (simp add: k0_def FDFD_of_sel)

lemma ex_wgm:
  assumes "ndim sg = 1" "oid sg = 0" "eps sg = 0" "yee_avg_n sg = 1"
    "heap s1 0 = \<lparr>shp = [4], dat = [1, 1, 1, 1]\<rparr>" "eps_t_cache s1 = []"
  shows "fst (wgm s1 (FDFD_of sg (2 * pi)))
     = Inr (mat_add (mat_scale 1 (diag_of [1, 1, 1, 1]))
              (matmul (df (FDFD_of sg (2 * pi)) ! 0) (db (FDFD_of sg (2 * pi)) ! 0)))"
proof -
  let ?g = "FDFD_of sg (2 * pi)"
  let ?v = "\<lparr>shp = [3, 4], dat = [1, 1, 1, 1, 1, 1, 1, 1, 1, 1, 1, 1 :: real]\<rparr>"
  have sel: "ndim ?g = 1" "oid ?g = 0" "eps ?g = 0" "yee_avg_n ?g = 1"
    using assms by (simp_all add: FDFD_of_def SimGrid.extend_def)
  define s2 where "s2 = s1\<lparr>eps_t_cache := [(0, ?v)]\<rparr>"
  have e1: "eps_t s1 ?g = (Inr ?v, s2)"
    by (simp add: eps_t_def eps_t_compute_def assms sel yee4 Let_def s2_def)
  have e2: "eps_t s2 ?g = (Inr ?v, s2)"
    by (simp add: eps_t_def sel s2_def)
  show ?thesis
    by (simp add: wgm_def Let_def sel e1 e2 subarrays_ones np_flatten_def ex_k0)
qed

lemma ex_lap:
  assumes "ndim g = 1" "shape g = [4]" "bloch g = [1]"
    "dxes g = (meshgrid_ij [[1, 1, 1, 1], [1], [1]], meshgrid_ij [[1, 1, 1, 1], [1], [1]])"
    and "i < 4" "k < 4"
  shows "ent (matmul (df g ! 0) (db g ! 0)) i k
         = (if k = i then - 2 else if k = (i + 1) mod 4 \<or> i = (k + 1) mod 4 then 1 else 0)"
proof -
  have dims: "nrows (df g ! 0) = 4" "ncols (df g ! 0) = 4" "ncols (db g ! 0) = 4"
    unfolding df_def db_def ex_deriv [OF assms(1-4)]
    by (simp_all add: matmul_def sp_diags1_def axis_b_def axis_f_def sp_diags_def)
  have F: "ent (df g ! 0) i l = (if l = i then - 1 else if l = (i + 1) mod 4 then 1 else 0)"
    if "l < 4" for l
    unfolding df_def using ex_deriv_ent [OF assms(1-4) assms(5) that, of False] axis4_ent(1) [OF assms(5) that]
    by simp
  have B: "ent (db g ! 0) l k = (if k = l then 1 else if l = (k + 1) mod 4 then - 1 else 0)"
    if "l < 4" for l
    unfolding db_def using ex_deriv_ent [OF assms(1-4) that assms(6), of True] axis4_ent(2) [OF that assms(6)]
    by simp
  have "ent (matmul (df g ! 0) (db g ! 0)) i k = (\<Sum>l<4. ent (df g ! 0) i l * ent (db g ! 0) l k)"
    using assms(5,6) by (simp add: matmul_def dims)
  also have "\<dots> = (\<Sum>l<4. (if l = i then - 1 else if l = (i + 1) mod 4 then 1 else 0)
                        * (if k = l then 1 else if l = (k + 1) mod 4 then - 1 else 0))"
    by (intro sum.cong) (simp_all add: F B)
  also have "\<dots> = (if k = i then - 2 else if k = (i + 1) mod 4 \<or> i = (k + 1) mod 4 then 1 else 0)"
    unfolding sum4 using assms(5,6) by (auto simp: mod_Suc split: if_splits)
  finally show ?thesis .
qed

lemma nth4_ones: "i < 4 \<Longrightarrow> [a, a, a, a] ! i = a"
  by (auto simp: nth_Cons' )

lemma matmul_ent:
  "i < nrows A \<Longrightarrow> j < ncols B \<Longrightarrow> ent (matmul A B) i j = (\<Sum>k<ncols A. ent A i k * ent B k j)"
  by (simp add: matmul_def)

lemma ex_eigenpairs:
  assumes "ndim g = 1" "shape g = [4]" "bloch g = [1]"
    "dxes g = (meshgrid_ij [[1, 1, 1, 1], [1], [1]], meshgrid_ij [[1, 1, 1, 1], [1], [1]])"
  shows "eigenpairs (mat_add (mat_scale 1 (diag_of [1, 1, 1, 1])) (matmul (df g ! 0) (db g ! 0)))
           [1, - 1] ex_vecs"
proof -
  let ?A = "mat_add (mat_scale 1 (diag_of [1, 1, 1, 1])) (matmul (df g ! 0) (db g ! 0))"
  have dims: "nrows ?A = 4" "ncols ?A = 4" "nrows ex_vecs = 4" "ncols ex_vecs = 2"
    by (simp_all add: mat_add_def mat_scale_def diag_of_def sp_diags1_def ex_vecs_def dense_def)
  have A: "ent ?A i k = (if k = i then - 1 else if k = (i + 1) mod 4 \<or> i = (k + 1) mod 4 then 1 else 0)"
    if "i < 4" "k < 4" for i k
    using that ex_lap [OF assms that]
    by (simp add: mat_add_def mat_scale_def diag_of_def sp_diags1_def nth4_ones)
  have V: "ent ex_vecs k 0 = 1" "ent ex_vecs k 1 = [1, 0, - 1, 0] ! k" if "k < 4" for k
    using that by (auto simp: ex_vecs_def dense_def nth_Cons' )
  have AV: "ent (matmul ?A ex_vecs) i j = ent ?A i 0 * ent ex_vecs 0 j + ent ?A i 1 * ent ex_vecs 1 j
      + ent ?A i 2 * ent ex_vecs 2 j + ent ?A i 3 * ent ex_vecs 3 j" if "i < 4" "j < 2" for i j
    using that matmul_ent [of i ?A j ex_vecs] unfolding dims sum4 by simp
  have eq: "ent (matmul ?A ex_vecs) i j = [1, - 1] ! j * ent ex_vecs i j"
    if "i \<in> {0, 1, 2, 3}" "j \<in> {0, 1}" for i j
    using that V [of 0] V [of 1] V [of 2] V [of 3] by (auto simp: AV A)
  have nz: "ent ex_vecs 0 0 \<noteq> 0" "ent ex_vecs 0 1 \<noteq> 0"
    by (simp_all add: ex_vecs_def dense_def)
  show ?thesis
    unfolding eigenpairs_def dims
    using eq nz by (simp add: upt4 upt2)
qed

lemma ex_eigenpair:
  assumes "ndim g = 1" "shape g = [4]" "bloch g = [1]"
    "dxes g = (meshgrid_ij [[1, 1, 1, 1], [1], [1]], meshgrid_ij [[1, 1, 1, 1], [1], [1]])"
  shows "eigenpairs (mat_add (mat_scale 1 (diag_of [1, 1, 1, 1])) (matmul (df g ! 0) (db g ! 0)))
           [1] ex_vec"
proof -
  let ?A = "mat_add (mat_scale 1 (diag_of [1, 1, 1, 1])) (matmul (df g ! 0) (db g ! 0))"
  have dims: "nrows ?A = 4" "ncols ?A = 4" "nrows ex_vec = 4" "ncols ex_vec = 1"
    by (simp_all add: mat_add_def mat_scale_def diag_of_def sp_diags1_def ex_vec_def dense_def)
  have A: "ent ?A i k = (if k = i then - 1 else if k = (i + 1) mod 4 \<or> i = (k + 1) mod 4 then 1 else 0)"
    if "i < 4" "k < 4" for i k
    using that ex_lap [OF assms that]
    by (simp add: mat_add_def mat_scale_def diag_of_def sp_diags1_def nth4_ones)
  have V: "ent ex_vec k 0 = - 1 / 2" if "k < 4" for k
    using that by (auto simp: ex_vec_def dense_def nth_Cons' )
  have AV: "ent (matmul ?A ex_vec) i 0 = ent ?A i 0 * ent ex_vec 0 0 + ent ?A i 1 * ent ex_vec 1 0
      + ent ?A i 2 * ent ex_vec 2 0 + ent ?A i 3 * ent ex_vec 3 0" if "i < 4" for i
    using that matmul_ent [of i ?A 0 ex_vec] unfolding dims sum4 by simp
  have eq: "ent (matmul ?A ex_vec) i 0 = [1] ! 0 * ent ex_vec i 0"
    if "i \<in> {0, 1, 2, 3}" for i
    using that V [of 0] V [of 1] V [of 2] V [of 3] by (auto simp: AV A)
  have nz: "ent ex_vec 0 0 \<noteq> 0"
    by (simp add: ex_vec_def dense_def)
  show ?thesis
    unfolding eigenpairs_def dims
    using eq nz by (simp add: upt4)
qed

lemma ex_argsort1: "np_argsort [np_sqrt_key 1] = Inr [0]"
  by (simp add: np_argsort_def)

text \<open>
  Claim C4, as stated, fails in the complex case.  On the uniform grid of four cells with
  a complex dtype and \<open>k0 = 1\<close>, the constant field \<open>-1/2\<close> is an eigenvector of \<open>wgm\<close>
  for the eigenvalue \<open>1\<close> (\<open>eigenpairs\<close>).  When the eigensolver returns it, the factor
  is \<open>np.exp(-1j * np.angle(-0.5))\<close>: the angle is the double nearest to \<open>\<pi>\<close>, which is
  below \<open>\<pi>\<close>, so the sine of the angle is not zero.  The first entry of the returned mode
  is \<open>0.5 + 6.123233995736766e-17j\<close> (the imaginary part is \<open>4967757600021511 / 2^106\<close>;
  the products by \<open>-1/2\<close> are exact in double precision).  Its phase is not exactly \<open>0\<close>.
\<close>

theorem wgm_solve_phase_not_zero:
  "\<exists>sg s1 A bs ms s2.
     SimGrid_init init_state [4] (SpacingFloat 1) (EpsFloat 1) (BlochSeq [0]) None 1 1 = (Inr sg, s1)
     \<and> dtype (FDFD_of sg (2 * pi)) = Complex128
     \<and> wgm s1 (FDFD_of sg (2 * pi)) = (Inr A, s2)
     \<and> eigenpairs A [1] ex_vec
     \<and> wgm_solve s1 (FDFD_of sg (2 * pi)) (eigs_returning [1] ex_vec) 1 (BgFloat (1 / 2))
           (1 / 10 ^ 7) = (Inr (bs, ms), s2)
     \<and> nrows ms = 1 \<and> ncols ms = 4
     \<and> ent ms 0 0 = Complex (1 / 2) (4967757600021511 / 2 ^ 106)
     \<and> Arg (ent ms 0 0) \<noteq> 0"
proof -
  obtain sg s1 where g:
    "SimGrid_init init_state [4] (SpacingFloat 1) (EpsFloat 1) (BlochSeq [0]) None 1 1 = (Inr sg, s1)"
    "ndim sg = 1" "dtype sg = Complex128" "oid sg = 0" "eps sg = 0" "yee_avg_n sg = 1"
    "heap s1 0 = \<lparr>shp = [4], dat = [1, 1, 1, 1]\<rparr>" "eps_t_cache s1 = []"
    "shape sg = [4]" "bloch sg = [1]"
    "dxes sg = (meshgrid_ij [[1, 1, 1, 1], [1], [1]], meshgrid_ij [[1, 1, 1, 1], [1], [1]])"
    using ex4c by metis
  let ?g = "FDFD_of sg (2 * pi)"
  let ?A = "mat_add (mat_scale 1 (diag_of [1, 1, 1, 1])) (matmul (df ?g ! 0) (db ?g ! 0))"
  let ?z = "complex_of_real (- 1 / 2)"
  let ?f = "np_exp (- \<i> * complex_of_real (np_angle ?z))"
  let ?ms = "mat_T (select_cols (row_mul ex_vec [?f]) [0])"
  have sel: "ndim ?g = 1" "shape ?g = [4]" "bloch ?g = [1]"
    "dxes ?g = (meshgrid_ij [[1, 1, 1, 1], [1], [1]], meshgrid_ij [[1, 1, 1, 1], [1], [1]])"
    and dt: "dtype ?g = Complex128"
    using g by (simp_all add: FDFD_of_def SimGrid.extend_def)
  obtain s2 where w: "wgm s1 ?g = (Inr ?A, s2)"
    using ex_wgm [OF g(2) g(4-8)] by (cases "wgm s1 ?g") auto
  have e: "eigenpairs ?A [1] ex_vec"
    by (rule ex_eigenpair [OF sel])
  have v: "ent ex_vec 0 0 = ?z" "ncols ex_vec = 1" "nrows ex_vec = 4"
    by (simp_all add: ex_vec_def dense_def)
  have m: "wgm_modes ?g [1] ex_vec = Inr ([1], ?ms)"
    by (simp add: wgm_modes_def Let_def ex_argsort1 sel dt v)
  then have call: "wgm_solve s1 ?g (eigs_returning [1] ex_vec) 1 (BgFloat (1 / 2)) (1 / 10 ^ 7)
       = (Inr ([1], ?ms), s2)"
    by (simp add: wgm_solve_def Let_def w eigs_returning_def external_def)
  have "ent ?ms 0 0 = ?z * ?f"
    by (simp add: mat_T_def select_cols_def row_mul_def v)
  also have "\<dots> = Complex (- (- 1 / 2)) (- (- 1 / 2) * (4967757600021511 / 2 ^ 105))"
    by (rule phase_of_negative) simp
  also have "\<dots> = Complex (1 / 2) (4967757600021511 / 2 ^ 106)"
    by simp
  finally have first: "ent ?ms 0 0 = Complex (1 / 2) (4967757600021511 / 2 ^ 106)" .
  then have "Im (ent ?ms 0 0) \<noteq> 0" by simp
  then have "Arg (ent ?ms 0 0) \<noteq> 0"
    using Arg_zero_Im by blast
  moreover have "nrows ?ms = 1" "ncols ?ms = 4"
    by (simp_all add: mat_T_def select_cols_def row_mul_def v)
  ultimately show ?thesis
    using g(1) dt w e call first by blast
qed

text \<open>
  Claim C4, amended to the real case.  For every successful call of \<open>wgm_solve\<close> on a grid
  of real dtype (with an eigensolver that returns one eigenvector per eigenvalue) and every
  returned mode that has a first entry: the sign \<open>np.sign\<close> of that entry is \<open>0\<close> or
  \<open>1\<close>, never negative.  The factor of the real case is \<open>0\<close>, \<open>1\<close> or \<open>-1\<close>, so the
  products are exact in double precision too.
\<close>

theorem wgm_solve_first_cell_sign:
  assumes "wgm_solve st g C k bg tol = (Inr (bs, ms), st')" and "eigen_contract C"
    and "dtype g = Float64" and "i < nrows ms" and "0 < ncols ms"
  shows "np_sign (ent ms i 0) = 0 \<or> np_sign (ent ms i 0) = 1"
proof -
  obtain vals vecs where "wgm_modes g vals vecs = Inr (bs, ms)" "ncols vecs = length vals"
    using wgm_solve_Inr [OF assms(1,2)] by blast
  then obtain z where "ent ms i 0 = z * np_sign z"
    using wgm_modes_entry [of g vals vecs bs ms i] assms(3-5) by auto
  then show ?thesis using sign_fix [of z] by simp
qed

theorem wgm_solve_first_cell_sign_witness:
  "\<exists>sg s1 bs ms s2.
     SimGrid_init init_state [4] (SpacingFloat 1) (EpsFloat 1) (BlochFloat 0) None 1 1 = (Inr sg, s1)
     \<and> wgm_solve s1 (FDFD_of sg (2 * pi)) (eigs_returning [1, - 1] ex_vecs) 2 (BgFloat (1 / 2))
           (1 / 10 ^ 7) = (Inr (bs, ms), s2)
     \<and> dtype (FDFD_of sg (2 * pi)) = Float64
     \<and> (np_sign (ent ms 0 0) = 0 \<or> np_sign (ent ms 0 0) = 1)"
proof -
  obtain sg s1 where g:
    "SimGrid_init init_state [4] (SpacingFloat 1) (EpsFloat 1) (BlochFloat 0) None 1 1 = (Inr sg, s1)"
    "ndim sg = 1" "dtype sg = Float64" "oid sg = 0" "eps sg = 0" "yee_avg_n sg = 1"
    "heap s1 0 = \<lparr>shp = [4], dat = [1, 1, 1, 1]\<rparr>" "eps_t_cache s1 = []"
    using ex4 by metis
  let ?g = "FDFD_of sg (2 * pi)"
  let ?C = "eigs_returning [1, - 1] ex_vecs"
  have sel: "ndim ?g = 1" "oid ?g = 0" "eps ?g = 0" "yee_avg_n ?g = 1" "dtype ?g = Float64"
    using g by (simp_all add: FDFD_of_def SimGrid.extend_def)
  obtain v st1 where "eps_t s1 ?g = (Inr v, st1)"
    by (simp add: eps_t_def eps_t_compute_def g sel yee4 Let_def)
  then obtain A s2 where w: "wgm s1 ?g = (Inr A, s2)"
    using wgm_ok [of ?g s1 v st1] sel by auto
  obtain bs ms where m: "wgm_modes ?g [1, - 1] ex_vecs = Inr (bs, ms)"
    by (simp add: wgm_modes_def Let_def ex_argsort)
  then have call: "wgm_solve s1 ?g ?C 2 (BgFloat (1 / 2)) (1 / 10 ^ 7) = (Inr (bs, ms), s2)"
    by (simp add: wgm_solve_def Let_def w eigs_returning_def external_def)
  have contract: "eigen_contract ?C"
    by (simp add: eigen_contract_def eigs_returning_def no_collab_def ex_vecs_def dense_def)
  have dims: "0 < nrows ms" "0 < ncols ms"
    using m by (auto simp: wgm_modes_def Let_def mat_T_def select_cols_def row_mul_def sel
        ex_argsort ex_vecs_def dense_def)
  from wgm_solve_first_cell_sign [OF call contract sel(5) dims] sel(5) g(1) call
  show ?thesis by blast
qed

lemma csqrt_m1: "csqrt (- 1) = \<i>"
  by simp

text \<open>
  When every eigenvalue is real and not negative, the propagation constants come out in
  the order of Claim C3, whatever the eigenvectors are.
\<close>

lemma csqrt_real_nonneg:
  assumes "Im v = 0" "0 \<le> Re v"
  shows "Re (csqrt v) = sqrt (Re v)"
proof -
  have "v = complex_of_real (Re v)" using assms by (simp add: complex_eq_iff)
  then have "csqrt v = complex_of_real (sqrt (Re v))"
    using assms(2) by (metis of_real_sqrt)
  then show ?thesis by simp
qed

lemma wgm_modes_sorted:
  assumes "\<forall>v \<in> set vals. Im v = 0 \<and> 0 \<le> Re v"
    and "wgm_modes g vals vecs = Inr (bs, ms)"
  shows "sorted_wrt (\<lambda>a b. Re a \<ge> Re b) bs"
proof -
  define ks where "ks = map (\<lambda>v. np_sqrt_key (Re v)) vals"
  obtain inds where srt: "np_argsort ks = Inr inds"
    using assms(2) by (cases "np_argsort ks") (simp_all add: wgm_modes_def ks_def)
  have fst: "bs = map (\<lambda>i. csqrt (vals ! i)) (rev inds)"
    using assms(2) srt by (simp add: wgm_modes_def Let_def ks_def)
  have range: "\<forall>i \<in> set inds. i < length vals"
    using np_argsort_set [OF srt] by (simp add: ks_def)
  have key: "ks ! i = (False, Re (csqrt (vals ! i)))" if "i < length vals" for i
  proof -
    have "Im (vals ! i) = 0" "0 \<le> Re (vals ! i)"
      using that assms nth_mem [OF that] by auto
    then show ?thesis
      using that by (simp add: ks_def np_sqrt_key_def csqrt_real_nonneg)
  qed
  have "inds = sort_key (\<lambda>i. ks ! i) [0..<length ks]"
    using srt by (simp add: np_argsort_def split: if_splits)
  then have "sorted (map (\<lambda>i. ks ! i) inds)"
    by (simp only: sorted_sort_key)
  moreover have "map (\<lambda>i. ks ! i) inds = map (\<lambda>i. (False, Re (csqrt (vals ! i)))) inds"
    using range key by simp
  ultimately have "sorted (map (\<lambda>i. (False, Re (csqrt (vals ! i)))) inds)"
    by simp
  then have "sorted (map (\<lambda>i. Re (csqrt (vals ! i))) inds)"
    by (simp add: sorted_wrt_map sorted_wrt_iff_nth_less)
  then have "sorted_wrt (\<lambda>a b. Re a \<ge> Re b) (map (\<lambda>i. csqrt (vals ! i)) (rev inds))"
    by (simp add: sorted_wrt_map sorted_wrt_rev rev_map [symmetric])
  then show ?thesis by (simp add: fst)
qed

text \<open>
  Claim C3 fails on the code.  On a uniform grid of four cells with \<open>k0 = 1\<close> the
  operator \<open>wgm\<close> has the eigenvalue \<open>1\<close> with the constant field and the eigenvalue
  \<open>-1\<close> with the field \<open>(1, 0, -1, 0)\<close> (\<open>eigenpairs\<close>).  When the eigensolver
  returns these, the sort key \<open>np.sqrt(eigvals.real)\<close> of the negative eigenvalue is NaN,
  which \<open>np.argsort\<close> puts last and the reversal puts first: the returned propagation
  constants are \<open>[\<i>, 1]\<close>, with real parts \<open>0 < 1\<close>.
\<close>

theorem wgm_solve_unsorted:
  "\<exists>sg s1 A ms s2.
     SimGrid_init init_state [4] (SpacingFloat 1) (EpsFloat 1) (BlochFloat 0) None 1 1 = (Inr sg, s1)
     \<and> wgm s1 (FDFD_of sg (2 * pi)) = (Inr A, s2)
     \<and> eigenpairs A [1, - 1] ex_vecs
     \<and> wgm_solve s1 (FDFD_of sg (2 * pi)) (eigs_returning [1, - 1] ex_vecs) 2 (BgFloat (1 / 2))
           (1 / 10 ^ 7) = (Inr ([\<i>, 1], ms), s2)
     \<and> Re \<i> < Re 1"
proof -
  obtain sg s1 where g:
    "SimGrid_init init_state [4] (SpacingFloat 1) (EpsFloat 1) (BlochFloat 0) None 1 1 = (Inr sg, s1)"
    "ndim sg = 1" "oid sg = 0" "eps sg = 0" "yee_avg_n sg = 1"
    "heap s1 0 = \<lparr>shp = [4], dat = [1, 1, 1, 1]\<rparr>" "eps_t_cache s1 = []"
    "shape sg = [4]" "bloch sg = [1]"
    "dxes sg = (meshgrid_ij [[1, 1, 1, 1], [1], [1]], meshgrid_ij [[1, 1, 1, 1], [1], [1]])"
    using ex4 by metis
  let ?g = "FDFD_of sg (2 * pi)"
  let ?A = "mat_add (mat_scale 1 (diag_of [1, 1, 1, 1])) (matmul (df ?g ! 0) (db ?g ! 0))"
  have sel: "ndim ?g = 1" "shape ?g = [4]" "bloch ?g = [1]"
    "dxes ?g = (meshgrid_ij [[1, 1, 1, 1], [1], [1]], meshgrid_ij [[1, 1, 1, 1], [1], [1]])"
    using g by (simp_all add: FDFD_of_def SimGrid.extend_def)
  obtain s2 where w: "wgm s1 ?g = (Inr ?A, s2)"
    using ex_wgm [OF g(2-7)] by (cases "wgm s1 ?g") auto
  have e: "eigenpairs ?A [1, - 1] ex_vecs"
    by (rule ex_eigenpairs [OF sel])
  obtain ms where "wgm_modes ?g [1, - 1] ex_vecs = Inr ([\<i>, 1], ms)"
    by (simp add: wgm_modes_def Let_def ex_argsort)
  then have "wgm_solve s1 ?g (eigs_returning [1, - 1] ex_vecs) 2 (BgFloat (1 / 2)) (1 / 10 ^ 7)
       = (Inr ([\<i>, 1], ms), s2)"
    by (simp add: wgm_solve_def Let_def w eigs_returning_def external_def)
  with g(1) w e show ?thesis by auto
qed

subsection \<open>The cache of \<open>eps_t\<close> and the construction of \<open>Modes\<close>\<close>

lemma assign_sel: "oid (assign_eps g a) = oid g" "eps (assign_eps g a) = a"
  "yee_avg_n (assign_eps g a) = yee_avg_n g"
  by (simp_all add: assign_eps_def)

text \<open>
  Claim C8 fails on the code.  A grid of four cells with permittivity 1 reads \<open>eps_t\<close>
  once.  Then the permittivity becomes 4 everywhere, by the assignment of a new array
  (\<open>assign_eps\<close>, as \<open>ModeDevice.solve\<close> does) or by an in-place write (\<open>fill\<close>).  The
  next reading of \<open>eps_t\<close> returns the value computed from the old permittivity, while the
  Yee average of the new permittivity, \<open>eps_t_compute\<close>, is 4 everywhere.
\<close>

theorem eps_t_stale:
  "\<exists>g s1 v s2 a s3.
     SimGrid_init init_state [4] (SpacingFloat 1) (EpsFloat 1) (BlochFloat 0) None 1 1 = (Inr g, s1)
     \<and> eps_t s1 g = (Inr v, s2)
     \<and> v = \<lparr>shp = [3, 4], dat = [1, 1, 1, 1, 1, 1, 1, 1, 1, 1, 1, 1]\<rparr>
     \<and> alloc s2 \<lparr>shp = [4], dat = [4, 4, 4, 4]\<rparr> = (a, s3)
     \<and> fst (eps_t s3 (assign_eps g a)) = Inr v
     \<and> eps_t_compute s3 (assign_eps g a)
         = Inr \<lparr>shp = [3, 4], dat = [4, 4, 4, 4, 4, 4, 4, 4, 4, 4, 4, 4]\<rparr>
     \<and> fst (eps_t (fill s2 g 4 4) g) = Inr v
     \<and> eps_t_compute (fill s2 g 4 4) g
         = Inr \<lparr>shp = [3, 4], dat = [4, 4, 4, 4, 4, 4, 4, 4, 4, 4, 4, 4]\<rparr>"
proof -
  obtain g s1 where g:
    "SimGrid_init init_state [4] (SpacingFloat 1) (EpsFloat 1) (BlochFloat 0) None 1 1 = (Inr g, s1)"
    "oid g = 0" "eps g = 0" "yee_avg_n g = 1"
    "heap s1 0 = \<lparr>shp = [4], dat = [1, 1, 1, 1]\<rparr>" "eps_t_cache s1 = []" "next_addr s1 = 1"
    "last (spacing g) = 1"
    using ex4 by metis
  let ?v = "\<lparr>shp = [3, 4], dat = [1, 1, 1, 1, 1, 1, 1, 1, 1, 1, 1, 1 :: real]\<rparr>"
  let ?w = "\<lparr>shp = [3, 4], dat = [4, 4, 4, 4, 4, 4, 4, 4, 4, 4, 4, 4 :: real]\<rparr>"
  define s2 where "s2 = s1\<lparr>eps_t_cache := [(0, ?v)]\<rparr>"
  have e1: "eps_t s1 g = (Inr ?v, s2)"
    by (simp add: eps_t_def eps_t_compute_def g yee4 Let_def s2_def)
  obtain a s3 where a: "alloc s2 \<lparr>shp = [4], dat = [4, 4, 4, 4]\<rparr> = (a, s3)"
    by (cases "alloc s2 \<lparr>shp = [4], dat = [4, 4, 4, 4]\<rparr>")
  then have s3: "eps_t_cache s3 = [(0, ?v)]" "heap s3 a = \<lparr>shp = [4], dat = [4, 4, 4, 4]\<rparr>"
    by (auto simp: alloc_def s2_def)
  have e2: "fst (eps_t s3 (assign_eps g a)) = Inr ?v"
    by (simp add: eps_t_def assign_sel g s3)
  have c2: "eps_t_compute s3 (assign_eps g a) = Inr ?w"
    by (simp add: eps_t_compute_def assign_sel g s3 yee4 Let_def)
  have f: "heap (fill s2 g 4 4) 0 = \<lparr>shp = [4], dat = [4, 4, 4, 4]\<rparr>"
      "eps_t_cache (fill s2 g 4 4) = [(0, ?v)]"
    by (simp_all add: fill_def Let_def g s2_def py_int_def upt4)
  have e3: "fst (eps_t (fill s2 g 4 4) g) = Inr ?v"
    by (simp add: eps_t_def g f)
  have c3: "eps_t_compute (fill s2 g 4 4) g = Inr ?w"
    by (simp add: eps_t_compute_def g f yee4 Let_def)
  show ?thesis
    using g(1) e1 a e2 c2 e3 c3 by blast
qed

text \<open>
  Claim C9 fails on the code: no \<open>Modes\<close> result can be constructed from a live grid.
  The grid that \<open>SimGrid.__init__\<close> builds holds the module \<open>numpy\<close> in its attribute
  \<open>xp\<close>, and \<open>Modes.__init__\<close> begins with \<open>copy.deepcopy(fdfd)\<close>, which raises
  \<open>TypeError\<close> on the module.  The construction fails for all propagation constants, modes
  and wavelengths, so there is no snapshot that a later mutation of the live grid could
  leave unchanged; the assignment \<open>self.eps = fdfd.eps\<close> of the next line is never reached.
\<close>

theorem Modes_init_raises:
  "\<exists>sg s1.
     SimGrid_init init_state [4] (SpacingFloat 1) (EpsFloat 1) (BlochFloat 0) None 1 1 = (Inr sg, s1)
     \<and> xp sg = Numpy
     \<and> (\<forall>betas0 modes0 wl.
          fst (Modes_init s1 betas0 modes0 (FDFD_of sg wl)) = Inl (Raise TypeError module_msg))"
proof -
  obtain sg s1 where g:
    "SimGrid_init init_state [4] (SpacingFloat 1) (EpsFloat 1) (BlochFloat 0) None 1 1 = (Inr sg, s1)"
    "xp sg = Numpy"
    using ex4 by metis
  have "fst (Modes_init s1 betas0 modes0 (FDFD_of sg wl))
      = Inl (Raise TypeError module_msg)" for betas0 modes0 wl
    by (simp add: Modes_init_def deepcopy_def deepcopy_module_def alloc_def Let_def)
  with g show ?thesis by blast
qed


end
